theory Spec2Isabelle
  imports Main
begin

section \<open>Python values used by the handlers\<close>

text \<open>
  A string is a list of code points below 256 (Latin-1 text); code points above are
  outside the model. \<open>isspace\<close> lists the code points \<^verbatim>\<open>str.strip()\<close> removes from both
  ends, and \<open>lower\<close> is \<^verbatim>\<open>str.lower()\<close>: it maps \<open>A\<close>..\<open>Z\<close> and the capitals
  \<open>0xC0\<close>..\<open>0xDE\<close> (\<open>0xD7\<close>, the multiplication sign, apart) to the code point 32 above.
\<close>

definition isspace :: "char \<Rightarrow> bool" where
  "isspace c = (c \<in> set [CHR 0x09, CHR 0x0A, CHR 0x0B, CHR 0x0C, CHR 0x0D,
                           CHR 0x1C, CHR 0x1D, CHR 0x1E, CHR 0x1F, CHR '' '',
                           CHR 0x85, CHR 0xA0])"

definition strip :: "string \<Rightarrow> string" where
  "strip s = rev (dropWhile isspace (rev (dropWhile isspace s)))"

definition upper_letters :: string where
  "upper_letters =
     ''ABCDEFGHIJKLMNOPQRSTUVWXYZ'' @
     [CHR 0xC0, CHR 0xC1, CHR 0xC2, CHR 0xC3, CHR 0xC4, CHR 0xC5, CHR 0xC6, CHR 0xC7,
      CHR 0xC8, CHR 0xC9, CHR 0xCA, CHR 0xCB, CHR 0xCC, CHR 0xCD, CHR 0xCE, CHR 0xCF,
      CHR 0xD0, CHR 0xD1, CHR 0xD2, CHR 0xD3, CHR 0xD4, CHR 0xD5, CHR 0xD6,
      CHR 0xD8, CHR 0xD9, CHR 0xDA, CHR 0xDB, CHR 0xDC, CHR 0xDD, CHR 0xDE]"

definition lower_letters :: string where
  "lower_letters =
     ''abcdefghijklmnopqrstuvwxyz'' @
     [CHR 0xE0, CHR 0xE1, CHR 0xE2, CHR 0xE3, CHR 0xE4, CHR 0xE5, CHR 0xE6, CHR 0xE7,
      CHR 0xE8, CHR 0xE9, CHR 0xEA, CHR 0xEB, CHR 0xEC, CHR 0xED, CHR 0xEE, CHR 0xEF,
      CHR 0xF0, CHR 0xF1, CHR 0xF2, CHR 0xF3, CHR 0xF4, CHR 0xF5, CHR 0xF6,
      CHR 0xF8, CHR 0xF9, CHR 0xFA, CHR 0xFB, CHR 0xFC, CHR 0xFD, CHR 0xFE]"

definition lower_char :: "char \<Rightarrow> char" where
  "lower_char c =
     (case map_of (zip upper_letters lower_letters) c of
        None \<Rightarrow> c
      | Some d \<Rightarrow> d)"

definition lower :: "string \<Rightarrow> string" where
  "lower s = map lower_char s"

text \<open>\<^verbatim>\<open>sub in s\<close> on strings: \<open>sub\<close> occurs in \<open>s\<close> as a contiguous run.\<close>

fun contains :: "string \<Rightarrow> string \<Rightarrow> bool" where
  "contains [] sub = (sub = [])"
| "contains (c # cs) sub = (take (length sub) (c # cs) = sub \<or> contains cs sub)"

text \<open>
  The values \<^verbatim>\<open>json.loads\<close> gives for a key the handlers pass to \<^verbatim>\<open>int()\<close>. A finite
  float is \<open>Finite m e\<close>, the number \<open>m \<times> 2\<^sup>e\<close>; a list or an object carries no
  content, since \<^verbatim>\<open>int()\<close> refuses it whatever it holds.
\<close>

datatype pyfloat = Finite int int | PosInf | NegInf | NaN

datatype pyval = PyInt int | PyFloat pyfloat | PyBool bool | PyStr string | PyList | PyDict

datatype py_error = ValueError | TypeError | OverflowError

text \<open>
  \<^verbatim>\<open>int(s)\<close> on a string. Whitespace is dropped at both ends (the code points of
  \<open>int_space\<close>: unlike \<^verbatim>\<open>strip()\<close>, \<^verbatim>\<open>int()\<close> does not skip \<open>0x1C\<close>..\<open>0x1F\<close>), then comes an
  optional sign, then decimal digits, where single underscores may stand between
  two digits. A literal of more digits than the interpreter's limit \<open>m\<close>
  (\<^verbatim>\<open>sys.get_int_max_str_digits()\<close>, 0 for none; the limit is never applied to 640
  digits or fewer) is refused.
\<close>

definition int_space :: "char \<Rightarrow> bool" where
  "int_space c = (c \<in> set [CHR 0x09, CHR 0x0A, CHR 0x0B, CHR 0x0C, CHR 0x0D, CHR '' '',
                             CHR 0x85, CHR 0xA0])"

definition is_digit :: "char \<Rightarrow> bool" where
  "is_digit c = (c \<in> set ''0123456789'')"

definition digit_value :: "char \<Rightarrow> int" where
  "digit_value c =
     (case map_of (zip ''0123456789'' [0, 1, 2, 3, 4, 5, 6, 7, 8, 9]) c of
        None \<Rightarrow> 0
      | Some d \<Rightarrow> d)"

definition digits_ok :: "string \<Rightarrow> bool" where
  "digits_ok ds =
     (case ds of
        [] \<Rightarrow> False
      | c # cs \<Rightarrow>
          is_digit c \<and> is_digit (last (c # cs))
          \<and> list_all (\<lambda>x. is_digit x \<or> x = CHR ''_'') ds
          \<and> \<not> contains ds ''__'')"

definition int_of_str :: "nat \<Rightarrow> string \<Rightarrow> py_error + int" where
  "int_of_str m s =
     (let b = rev (dropWhile int_space (rev (dropWhile int_space s)));
          neg = (case b of [] \<Rightarrow> False | c # cs \<Rightarrow> c = CHR ''-'');
          ds = (case b of [] \<Rightarrow> [] | c # cs \<Rightarrow> if c = CHR ''+'' \<or> c = CHR ''-'' then cs else b);
          n = length (filter is_digit ds)
      in if \<not> digits_ok ds then Inl ValueError
         else if 640 < n \<and> 0 < m \<and> m < n then Inl ValueError
         else
           (let v = foldl (\<lambda>a c. 10 * a + digit_value c) 0 (filter is_digit ds)
            in Inr (if neg then - v else v)))"

text \<open>\<^verbatim>\<open>int(x)\<close>: a float is truncated towards zero.\<close>

fun py_int :: "nat \<Rightarrow> pyval \<Rightarrow> py_error + int" where
  "py_int m (PyInt n) = Inr n"
| "py_int m (PyBool b) = Inr (if b then 1 else 0)"
| "py_int m (PyFloat (Finite k e)) =
     Inr (if 0 \<le> e then k * 2 ^ nat e
          else if 0 \<le> k then k div 2 ^ nat (- e)
          else - ((- k) div 2 ^ nat (- e)))"
| "py_int m (PyFloat PosInf) = Inl OverflowError"
| "py_int m (PyFloat NegInf) = Inl OverflowError"
| "py_int m (PyFloat NaN) = Inl ValueError"
| "py_int m (PyStr s) = int_of_str m s"
| "py_int m PyList = Inl TypeError"
| "py_int m PyDict = Inl TypeError"

text \<open>
  An integer SQLite can bind as a parameter or store: one of 64 bits, signed. The
  driver raises \<^verbatim>\<open>OverflowError\<close> for any other.
\<close>

definition sqlite_integer :: "int \<Rightarrow> bool" where
  "sqlite_integer n = (- (2 ^ 63) \<le> n \<and> n < 2 ^ 63)"

text \<open>
  The request's JSON object, as \<^verbatim>\<open>request.get_json()\<close> returns it. A key is absent,
  \<^verbatim>\<open>null\<close>, or holds a value. Text keys hold strings; \<^verbatim>\<open>price\<close> and \<^verbatim>\<open>rating\<close>, which
  the handlers convert with \<^verbatim>\<open>int()\<close>, hold any value. \<open>dict_get\<close> is \<^verbatim>\<open>data.get(k)\<close>,
  \<open>dict_get_default\<close> is \<^verbatim>\<open>data.get(k, d)\<close>, which returns \<open>d\<close> for an absent key only.
\<close>

datatype 'a json_field = Absent | Null | Val 'a

fun dict_get :: "'a json_field \<Rightarrow> 'a option" where
  "dict_get Absent = None"
| "dict_get Null = None"
| "dict_get (Val v) = Some v"

fun dict_get_default :: "'a json_field \<Rightarrow> 'a option \<Rightarrow> 'a option" where
  "dict_get_default Absent d = d"
| "dict_get_default Null d = None"
| "dict_get_default (Val v) d = Some v"

text \<open>Truthiness of \<^verbatim>\<open>None\<close> and of a string, and \<^verbatim>\<open>x or ''\<close>.\<close>

fun truthy :: "string option \<Rightarrow> bool" where
  "truthy None = False"
| "truthy (Some s) = (s \<noteq> [])"

fun or_empty :: "string option \<Rightarrow> string" where
  "or_empty None = []"
| "or_empty (Some s) = s"

record json_data =
  j_email :: "string json_field"
  j_password :: "string json_field"
  j_first_name :: "string json_field"
  j_last_name :: "string json_field"
  j_title :: "string json_field"
  j_description :: "string json_field"
  j_price :: "pyval json_field"
  j_place_id :: "string json_field"
  j_text :: "string json_field"
  j_rating :: "pyval json_field"

section \<open>The tables\<close>

text \<open>
  The three models of \<^verbatim>\<open>run_simple.py\<close>. A table is the list of its rows in insertion
  order. The primary keys are \<open>u_id\<close>, \<open>p_id\<close> and \<open>r_id\<close> (the column \<^verbatim>\<open>id\<close> of each
  model).
\<close>

record user =
  u_id :: string
  first_name :: string
  last_name :: string
  email :: string
  password :: string
  is_admin :: bool

record place =
  p_id :: string
  title :: string
  description :: "string option"
  price :: "int option"
  owner_id :: "string option"

record review =
  r_id :: string
  user_id :: string
  place_id :: string
  "text" :: string
  rating :: int

record store =
  user_table :: "user list"
  place_table :: "place list"
  review_table :: "review list"

section \<open>Tokens\<close>

text \<open>
  The claims of a token: the identity (\<^verbatim>\<open>sub\<close>) and the additional claims, each of
  which a token may lack. A token is symbolic: \<open>Signed k c\<close> carries the claims \<open>c\<close> under
  an integrity tag made with the key \<open>k\<close>; \<open>Malformed\<close> is any string that is not a
  token. Expiry is outside the model.
\<close>

record claims =
  sub :: string
  claim_user_id :: "string option"
  claim_email :: "string option"
  claim_is_admin :: "bool option"

datatype token = Signed string claims | Malformed string

fun decode_token :: "string \<Rightarrow> token \<Rightarrow> claims option" where
  "decode_token key (Signed k c) = (if k = key then Some c else None)"
| "decode_token key (Malformed _) = None"

record request =
  bearer :: "token option"

section \<open>Responses\<close>

datatype jval = JStr string | JInt int | JBool bool | JNull | JList "jval list"

type_synonym dict = "(string \<times> jval) list"

datatype payload =
    Error string
  | Message string
  | AccessToken token
  | Obj dict
  | ObjList "dict list"
  | UserAndToken dict token
  | InternalServerError

type_synonym response = "nat \<times> payload"

fun jstr_opt :: "string option \<Rightarrow> jval" where
  "jstr_opt None = JNull"
| "jstr_opt (Some s) = JStr s"

fun jint_opt :: "int option \<Rightarrow> jval" where
  "jint_opt None = JNull"
| "jint_opt (Some n) = JInt n"

definition user_to_dict :: "user \<Rightarrow> dict" where
  "user_to_dict u =
     [(''id'', JStr (u_id u)), (''first_name'', JStr (first_name u)),
      (''last_name'', JStr (last_name u)), (''email'', JStr (email u)),
      (''is_admin'', JBool (is_admin u))]"

definition amenities :: "string \<Rightarrow> string list" where
  "amenities t =
     (let title_lower = lower t in
      if contains title_lower ''beach'' then [''WiFi'', ''Sea view'', ''Air conditioning'']
      else if contains title_lower ''cabin'' then [''Fireplace'', ''Kitchen'']
      else if contains title_lower ''apartment'' \<or> contains title_lower ''modern''
        then [''WiFi'', ''Elevator'']
      else [])"

definition place_to_dict :: "place \<Rightarrow> dict" where
  "place_to_dict p =
     [(''id'', JStr (p_id p)), (''title'', JStr (title p)),
      (''description'', jstr_opt (description p)), (''price'', jint_opt (price p)),
      (''owner_id'', jstr_opt (owner_id p)),
      (''amenities'', JList (map JStr (amenities (title p))))]"

definition review_to_dict :: "review \<Rightarrow> dict" where
  "review_to_dict r =
     [(''id'', JStr (r_id r)), (''user_id'', JStr (user_id r)),
      (''place_id'', JStr (place_id r)), (''text'', JStr (text r)),
      (''rating'', JInt (rating r))]"

section \<open>The environment of a request\<close>

text \<open>
  What a handler takes from outside the program: the signing key
  (\<^verbatim>\<open>JWT_SECRET_KEY\<close>), werkzeug's password hashing, the identifier \<^verbatim>\<open>gen_id()\<close> draws
  for a new row, the interpreter's limit on the digits of an integer literal, and the
  database's verdict on each write: \<open>db_raises\<close> names the exception a call raises,
  if any, for a reason the model does not hold (an integer that SQLite cannot take is
  refused by \<open>sqlite_integer\<close>, whatever \<open>db_raises\<close> says). A handler that catches the exception rolls the
  session back, which restores the store the request started from; an exception no
  handler catches ends the request with status 500, and the session is discarded.
\<close>

datatype db_call = QueryDelete | QueryUpdate | SessionDelete | SessionCommit

datatype db_error = IntegrityError | OtherException

record env =
  secret_key :: string
  generate_password_hash :: "string \<Rightarrow> string"
  check_password_hash :: "string \<Rightarrow> string \<Rightarrow> bool"
  gen_id :: string
  int_max_str_digits :: nat
  db_raises :: "db_call \<Rightarrow> db_error option"

definition db_exec :: "env \<Rightarrow> db_call \<Rightarrow> store \<Rightarrow> db_error + store" where
  "db_exec e c s = (case db_raises e c of Some err \<Rightarrow> Inl err | None \<Rightarrow> Inr s)"

definition unhandled :: response where
  "unhandled = (500, InternalServerError)"

section \<open>Authentication\<close>

text \<open>
  \<^verbatim>\<open>verify_jwt_in_request()\<close> followed by \<^verbatim>\<open>get_jwt()\<close>: the claims of the bearer token,
  or \<open>None\<close> when the call raises (no token, a malformed one, a wrong tag).
\<close>

definition verify_jwt_in_request :: "env \<Rightarrow> request \<Rightarrow> claims option" where
  "verify_jwt_in_request e req =
     (case bearer req of
        None \<Rightarrow> None
      | Some t \<Rightarrow> decode_token (secret_key e) t)"

definition create_access_token :: "env \<Rightarrow> string \<Rightarrow> string \<Rightarrow> string \<Rightarrow> bool \<Rightarrow> token" where
  "create_access_token e identity uid em adm =
     Signed (secret_key e)
       \<lparr>sub = identity, claim_user_id = Some uid, claim_email = Some em,
        claim_is_admin = Some adm\<rparr>"

text \<open>\<^verbatim>\<open>claims.get('is_admin', False)\<close>.\<close>

fun get_is_admin :: "claims \<Rightarrow> bool" where
  "get_is_admin c = (case claim_is_admin c of None \<Rightarrow> False | Some b \<Rightarrow> b)"

text \<open>
  The decorator. The wrapped function runs in the request context that holds the
  verified claims, so it takes them as its first argument.
\<close>

definition admin_required ::
  "env \<Rightarrow> (claims \<Rightarrow> store \<Rightarrow> response \<times> store) \<Rightarrow> request \<Rightarrow> store \<Rightarrow> response \<times> store" where
  "admin_required e fn req s =
     (case verify_jwt_in_request e req of
        None \<Rightarrow> ((401, Error ''Authentication required''), s)
      | Some c \<Rightarrow>
          if \<not> get_is_admin c then ((403, Error ''Admin privileges required''), s)
          else fn c s)"

section \<open>Login and registration\<close>

definition login :: "env \<Rightarrow> json_data \<Rightarrow> store \<Rightarrow> response" where
  "login e data s =
     (let em = lower (strip (or_empty (dict_get (j_email data))));
          pw = or_empty (dict_get (j_password data))
      in if em = [] \<or> pw = [] then (400, Error ''email and password required'')
         else
           (case find (\<lambda>u. email u = em) (user_table s) of
              None \<Rightarrow> (401, Error ''Invalid email or password'')
            | Some u \<Rightarrow>
                if \<not> check_password_hash e (password u) pw
                then (401, Error ''Invalid email or password'')
                else (200, AccessToken
                        (create_access_token e (u_id u) (u_id u) (email u) (is_admin u)))))"

definition register :: "env \<Rightarrow> json_data \<Rightarrow> store \<Rightarrow> response \<times> store" where
  "register e data s =
     (let em = lower (strip (or_empty (dict_get (j_email data))))
      in if em = [] \<or> \<not> truthy (dict_get (j_password data))
            \<or> \<not> truthy (dict_get (j_first_name data))
            \<or> \<not> truthy (dict_get (j_last_name data))
         then ((400, Error ''Missing fields''), s)
         else if find (\<lambda>u. email u = em) (user_table s) \<noteq> None
         then ((400, Error ''Email already registered''), s)
         else
           (let pw_hash = generate_password_hash e (or_empty (dict_get (j_password data)));
                u = \<lparr>u_id = gen_id e,
                     first_name = or_empty (dict_get (j_first_name data)),
                     last_name = or_empty (dict_get (j_last_name data)),
                     email = em, password = pw_hash, is_admin = False\<rparr>
            in case db_exec e SessionCommit (s\<lparr>user_table := user_table s @ [u]\<rparr>) of
                 Inl IntegrityError \<Rightarrow> ((400, Error ''Email already registered''), s)
               | Inl OtherException \<Rightarrow> ((500, Error ''Failed to create user''), s)
               | Inr s' \<Rightarrow>
                   ((201, UserAndToken (user_to_dict u)
                            (create_access_token e (u_id u) (u_id u) (email u) (is_admin u))),
                    s')))"

section \<open>Places\<close>

definition list_places :: "store \<Rightarrow> response \<times> store" where
  "list_places s = ((200, ObjList (map place_to_dict (place_table s))), s)"

text \<open>
  The body of \<^verbatim>\<open>create_place\<close>. \<^verbatim>\<open>int(price)\<close> may raise, and the insert raises at the
  commit for an integer SQLite cannot store. The commit is outside any \<^verbatim>\<open>try\<close>: no
  exception is caught.
\<close>

definition create_place_fn :: "env \<Rightarrow> json_data \<Rightarrow> claims \<Rightarrow> store \<Rightarrow> response \<times> store" where
  "create_place_fn e data c s =
     (let t = dict_get (j_title data);
          d = dict_get (j_description data);
          pr = dict_get (j_price data)
      in if \<not> truthy t \<or> pr = None then ((400, Error ''Missing fields''), s)
         else
           (case pr of
              None \<Rightarrow> ((400, Error ''Missing fields''), s)
            | Some v \<Rightarrow>
                (case py_int (int_max_str_digits e) v of
                   Inl _ \<Rightarrow> (unhandled, s)
                 | Inr n \<Rightarrow>
                     (let p = \<lparr>p_id = gen_id e, title = or_empty t, description = d,
                               price = Some n, owner_id = None\<rparr>
                      in if \<not> sqlite_integer n then (unhandled, s)
                         else
                           (case db_exec e SessionCommit
                                   (s\<lparr>place_table := place_table s @ [p]\<rparr>) of
                              Inl _ \<Rightarrow> (unhandled, s)
                            | Inr s' \<Rightarrow> ((201, Obj (place_to_dict p)), s'))))))"

definition create_place :: "env \<Rightarrow> request \<Rightarrow> json_data \<Rightarrow> store \<Rightarrow> response \<times> store" where
  "create_place e req data s = admin_required e (create_place_fn e data) req s"

text \<open>
  The body of \<^verbatim>\<open>update_place\<close>. \<^verbatim>\<open>int(price)\<close> may raise; at the commit, a \<^verbatim>\<open>null\<close>
  title violates the column's \<^verbatim>\<open>nullable=False\<close> and an integer SQLite cannot store
  raises. No exception is caught.
\<close>

definition update_place_fn ::
  "env \<Rightarrow> string \<Rightarrow> json_data \<Rightarrow> claims \<Rightarrow> store \<Rightarrow> response \<times> store" where
  "update_place_fn e pid data c s =
     (case find (\<lambda>p. p_id p = pid) (place_table s) of
        None \<Rightarrow> ((404, Error ''Place not found''), s)
      | Some p \<Rightarrow>
          (case (case dict_get (j_price data) of
                   None \<Rightarrow> Inr (price p)
                 | Some v \<Rightarrow>
                     (case py_int (int_max_str_digits e) v of
                        Inl err \<Rightarrow> Inl err
                      | Inr n \<Rightarrow> if sqlite_integer n then Inr (Some n) else Inl OverflowError)) of
             Inl _ \<Rightarrow> (unhandled, s)
           | Inr pr \<Rightarrow>
               (case dict_get_default (j_title data) (Some (title p)) of
                  None \<Rightarrow> (unhandled, s)
                | Some t \<Rightarrow>
                    (let p' = p\<lparr>title := t,
                                description :=
                                  dict_get_default (j_description data) (description p),
                                price := pr\<rparr>
                     in case db_exec e SessionCommit
                               (s\<lparr>place_table :=
                                    map (\<lambda>q. if p_id q = p_id p then p' else q)
                                      (place_table s)\<rparr>) of
                          Inl _ \<Rightarrow> (unhandled, s)
                        | Inr s' \<Rightarrow> ((200, Obj (place_to_dict p')), s')))))"

definition update_place ::
  "env \<Rightarrow> request \<Rightarrow> string \<Rightarrow> json_data \<Rightarrow> store \<Rightarrow> response \<times> store" where
  "update_place e req pid data s = admin_required e (update_place_fn e pid data) req s"

text \<open>
  The body of \<^verbatim>\<open>delete_place\<close>: the bulk delete of the reviews, the delete of the
  place and the commit run in one \<^verbatim>\<open>try\<close>; any exception rolls back.
\<close>

definition delete_place_fn :: "env \<Rightarrow> string \<Rightarrow> claims \<Rightarrow> store \<Rightarrow> response \<times> store" where
  "delete_place_fn e pid c s =
     (case find (\<lambda>p. p_id p = pid) (place_table s) of
        None \<Rightarrow> ((404, Error ''Place not found''), s)
      | Some p \<Rightarrow>
          (case db_exec e QueryDelete
                  (s\<lparr>review_table := filter (\<lambda>r. place_id r \<noteq> pid) (review_table s)\<rparr>) of
             Inl _ \<Rightarrow> ((500, Error ''Failed to delete place''), s)
           | Inr s1 \<Rightarrow>
               (case db_exec e SessionDelete
                       (s1\<lparr>place_table := filter (\<lambda>q. p_id q \<noteq> p_id p) (place_table s1)\<rparr>) of
                  Inl _ \<Rightarrow> ((500, Error ''Failed to delete place''), s)
                | Inr s2 \<Rightarrow>
                    (case db_exec e SessionCommit s2 of
                       Inl _ \<Rightarrow> ((500, Error ''Failed to delete place''), s)
                     | Inr s3 \<Rightarrow> ((200, Message ''Place deleted successfully''), s3)))))"

definition delete_place :: "env \<Rightarrow> request \<Rightarrow> string \<Rightarrow> store \<Rightarrow> response \<times> store" where
  "delete_place e req pid s = admin_required e (delete_place_fn e pid) req s"

definition get_place :: "string \<Rightarrow> store \<Rightarrow> response \<times> store" where
  "get_place pid s =
     (case find (\<lambda>p. p_id p = pid) (place_table s) of
        None \<Rightarrow> ((404, Error ''Place not found''), s)
      | Some p \<Rightarrow> ((200, Obj (place_to_dict p)), s))"

section \<open>Reviews\<close>

datatype http_method = GET | POST

text \<open>
  The route \<^verbatim>\<open>/api/v1/reviews\<close>. The identity is the token's \<^verbatim>\<open>sub\<close>. The source
  tests \<^verbatim>\<open>not place_id or not text or rating is None\<close> in one condition; the case on
  the rating stands first here to bind its value, and all three tests give the same
  400. \<^verbatim>\<open>int(rating)\<close> may raise, and the duplicate query raises for an integer SQLite
  cannot bind; neither is caught, nor is an exception of the commit.
\<close>

definition reviews ::
  "env \<Rightarrow> http_method \<Rightarrow> request \<Rightarrow> json_data \<Rightarrow> store \<Rightarrow> response \<times> store" where
  "reviews e m req data s =
     (if m = GET then ((200, ObjList (map review_to_dict (review_table s))), s)
      else
        (case verify_jwt_in_request e req of
           None \<Rightarrow> ((401, Error ''Authentication required''), s)
         | Some c \<Rightarrow>
             (let identity = sub c;
                  pid = dict_get (j_place_id data);
                  txt = dict_get (j_text data)
              in case dict_get (j_rating data) of
                   None \<Rightarrow> ((400, Error ''Missing fields''), s)
                 | Some v \<Rightarrow>
                     if \<not> truthy pid \<or> \<not> truthy txt then ((400, Error ''Missing fields''), s)
                     else
                       (case find (\<lambda>p. p_id p = or_empty pid) (place_table s) of
                          None \<Rightarrow> ((404, Error ''Place not found''), s)
                        | Some p \<Rightarrow>
                            (let clean_text = strip (or_empty txt)
                             in case py_int (int_max_str_digits e) v of
                                  Inl _ \<Rightarrow> (unhandled, s)
                                | Inr rt \<Rightarrow>
                                    if \<not> sqlite_integer rt then (unhandled, s)
                                    else if find (\<lambda>r. user_id r = identity
                                                     \<and> place_id r = or_empty pid
                                                     \<and> text r = clean_text \<and> rating r = rt)
                                              (review_table s) \<noteq> None
                                    then ((409, Error ''Duplicate review detected''), s)
                                    else
                                      (let r = \<lparr>r_id = gen_id e, user_id = identity,
                                                place_id = or_empty pid, text = clean_text,
                                                rating = rt\<rparr>
                                       in case db_exec e SessionCommit
                                                 (s\<lparr>review_table := review_table s @ [r]\<rparr>) of
                                            Inl _ \<Rightarrow> (unhandled, s)
                                          | Inr s' \<Rightarrow>
                                              ((201, Obj (review_to_dict r)), s')))))))"

text \<open>
  The four columns the duplicate query of \<^verbatim>\<open>reviews\<close> filters by:
  \<^verbatim>\<open>filter_by(user_id=..., place_id=..., text=..., rating=...)\<close>.
\<close>

definition review_tuple :: "review \<Rightarrow> string \<times> string \<times> string \<times> int" where
  "review_tuple r = (user_id r, place_id r, text r, rating r)"

definition reviews_by_place :: "string \<Rightarrow> store \<Rightarrow> response \<times> store" where
  "reviews_by_place pid s =
     (case find (\<lambda>p. p_id p = pid) (place_table s) of
        None \<Rightarrow> ((404, Error ''Place not found''), s)
      | Some p \<Rightarrow>
          ((200, ObjList (map review_to_dict
                            (filter (\<lambda>r. place_id r = pid) (review_table s)))), s))"

definition delete_review :: "env \<Rightarrow> request \<Rightarrow> string \<Rightarrow> store \<Rightarrow> response \<times> store" where
  "delete_review e req rid s =
     (case verify_jwt_in_request e req of
        None \<Rightarrow> ((401, Error ''Authentication required''), s)
      | Some c \<Rightarrow>
          (let identity = sub c
           in case find (\<lambda>r. r_id r = rid) (review_table s) of
                None \<Rightarrow> ((404, Error ''Review not found''), s)
              | Some r \<Rightarrow>
                  (let adm = get_is_admin c
                   in if \<not> adm \<and> user_id r \<noteq> identity
                      then ((403, Error ''Unauthorized action''), s)
                      else
                        (case db_exec e SessionDelete
                                (s\<lparr>review_table :=
                                     filter (\<lambda>x. r_id x \<noteq> r_id r) (review_table s)\<rparr>) of
                           Inl _ \<Rightarrow> ((500, Error ''Failed to delete review''), s)
                         | Inr s1 \<Rightarrow>
                             (case db_exec e SessionCommit s1 of
                                Inl _ \<Rightarrow> ((500, Error ''Failed to delete review''), s)
                              | Inr s2 \<Rightarrow>
                                  ((200, Message ''Review deleted successfully''), s2))))))"

section \<open>Users\<close>

text \<open>\<^verbatim>\<open>get_user\<close> has no decorator and reads no token: the request is not looked at.\<close>

definition get_user :: "request \<Rightarrow> string \<Rightarrow> store \<Rightarrow> response \<times> store" where
  "get_user req uid s =
     (case find (\<lambda>u. u_id u = uid) (user_table s) of
        None \<Rightarrow> ((404, Error ''User not found''), s)
      | Some u \<Rightarrow> ((200, Obj (user_to_dict u)), s))"

definition list_users_fn :: "claims \<Rightarrow> store \<Rightarrow> response \<times> store" where
  "list_users_fn c s = ((200, ObjList (map user_to_dict (user_table s))), s)"

definition list_users :: "env \<Rightarrow> request \<Rightarrow> store \<Rightarrow> response \<times> store" where
  "list_users e req s = admin_required e list_users_fn req s"

text \<open>
  The body of \<^verbatim>\<open>delete_user\<close>: the bulk delete of the user's reviews, the bulk update
  of the places' \<^verbatim>\<open>owner_id\<close>, the delete of the user and the commit run in one
  \<^verbatim>\<open>try\<close>; any exception rolls back.
\<close>

definition delete_user_fn :: "env \<Rightarrow> string \<Rightarrow> claims \<Rightarrow> store \<Rightarrow> response \<times> store" where
  "delete_user_fn e uid c s =
     (case find (\<lambda>u. u_id u = uid) (user_table s) of
        None \<Rightarrow> ((404, Error ''User not found''), s)
      | Some u \<Rightarrow>
          (case db_exec e QueryDelete
                  (s\<lparr>review_table := filter (\<lambda>r. user_id r \<noteq> uid) (review_table s)\<rparr>) of
             Inl _ \<Rightarrow> ((500, Error ''Failed to delete user''), s)
           | Inr s1 \<Rightarrow>
               (case db_exec e QueryUpdate
                       (s1\<lparr>place_table :=
                             map (\<lambda>p. if owner_id p = Some uid then p\<lparr>owner_id := None\<rparr> else p)
                               (place_table s1)\<rparr>) of
                  Inl _ \<Rightarrow> ((500, Error ''Failed to delete user''), s)
                | Inr s2 \<Rightarrow>
                    (case db_exec e SessionDelete
                            (s2\<lparr>user_table :=
                                  filter (\<lambda>x. u_id x \<noteq> u_id u) (user_table s2)\<rparr>) of
                       Inl _ \<Rightarrow> ((500, Error ''Failed to delete user''), s)
                     | Inr s3 \<Rightarrow>
                         (case db_exec e SessionCommit s3 of
                            Inl _ \<Rightarrow> ((500, Error ''Failed to delete user''), s)
                          | Inr s4 \<Rightarrow> ((200, Message ''User deleted successfully''), s4))))))"

definition delete_user :: "env \<Rightarrow> request \<Rightarrow> string \<Rightarrow> store \<Rightarrow> response \<times> store" where
  "delete_user e req uid s = admin_required e (delete_user_fn e uid) req s"

section \<open>A concrete store\<close>

text \<open>
  The accounts and two of the places \<^verbatim>\<open>init_db\<close> seeds, with three reviews, and the
  requests of an administrator, of an ordinary user and of a caller without a token.
  The hashing functions stand for werkzeug's.
\<close>

definition demo_env :: env where
  "demo_env =
     \<lparr>secret_key = ''dev-secret'',
      generate_password_hash = (\<lambda>pw. ''hash:'' @ pw),
      check_password_hash = (\<lambda>h pw. h = ''hash:'' @ pw),
      gen_id = ''id-new'',
      int_max_str_digits = 4300,
      db_raises = (\<lambda>c. None)\<rparr>"

definition failing_env :: env where
  "failing_env = demo_env\<lparr>db_raises := (\<lambda>c. if c = SessionCommit then Some OtherException else None)\<rparr>"

definition racing_env :: env where
  "racing_env = demo_env\<lparr>db_raises := (\<lambda>c. if c = SessionCommit then Some IntegrityError else None)\<rparr>"

definition admin_user :: user where
  "admin_user =
     \<lparr>u_id = ''u1'', first_name = ''Admin'', last_name = ''User'',
      email = ''admin@example.com'', password = ''hash:AdminPass123'', is_admin = True\<rparr>"

definition demo_user :: user where
  "demo_user =
     \<lparr>u_id = ''u2'', first_name = ''Demo'', last_name = ''User'',
      email = ''demo@example.com'', password = ''hash:DemoPass123'', is_admin = False\<rparr>"

definition beach_house :: place where
  "beach_house =
     \<lparr>p_id = ''p1'', title = ''Beautiful Beach House'',
      description = Some ''A beautiful beach house with amazing views.'',
      price = Some 150, owner_id = Some ''u2''\<rparr>"

definition cozy_cabin :: place where
  "cozy_cabin =
     \<lparr>p_id = ''p2'', title = ''Cozy Cabin'',
      description = Some ''Small cozy cabin in the woods.'',
      price = Some 100, owner_id = None\<rparr>"

definition review1 :: review where
  "review1 = \<lparr>r_id = ''r1'', user_id = ''u2'', place_id = ''p1'', text = ''Great'', rating = 5\<rparr>"

definition review2 :: review where
  "review2 = \<lparr>r_id = ''r2'', user_id = ''u1'', place_id = ''p2'', text = ''Nice'', rating = 4\<rparr>"

definition review3 :: review where
  "review3 = \<lparr>r_id = ''r3'', user_id = ''u2'', place_id = ''p2'', text = ''Quiet'', rating = 3\<rparr>"

definition demo_store :: store where
  "demo_store =
     \<lparr>user_table = [admin_user, demo_user],
      place_table = [beach_house, cozy_cabin],
      review_table = [review1, review2, review3]\<rparr>"

definition admin_claims :: claims where
  "admin_claims =
     \<lparr>sub = ''u1'', claim_user_id = Some ''u1'', claim_email = Some ''admin@example.com'',
      claim_is_admin = Some True\<rparr>"

definition demo_claims :: claims where
  "demo_claims =
     \<lparr>sub = ''u2'', claim_user_id = Some ''u2'', claim_email = Some ''demo@example.com'',
      claim_is_admin = Some False\<rparr>"

definition admin_request :: request where
  "admin_request = \<lparr>bearer = Some (Signed ''dev-secret'' admin_claims)\<rparr>"

definition demo_request :: request where
  "demo_request = \<lparr>bearer = Some (Signed ''dev-secret'' demo_claims)\<rparr>"

definition anonymous_request :: request where
  "anonymous_request = \<lparr>bearer = None\<rparr>"

definition forged_request :: request where
  "forged_request = \<lparr>bearer = Some (Signed ''guessed'' admin_claims)\<rparr>"

definition no_data :: json_data where
  "no_data =
     \<lparr>j_email = Absent, j_password = Absent, j_first_name = Absent, j_last_name = Absent,
      j_title = Absent, j_description = Absent, j_price = Absent, j_place_id = Absent,
      j_text = Absent, j_rating = Absent\<rparr>"

section \<open>Lookups by key\<close>

lemma find_by_key:
  "x \<in> set xs \<Longrightarrow> \<exists>y. find (\<lambda>z. f z = f x) xs = Some y \<and> f y = f x"
  by (induction xs) auto

lemma find_unique_key:
  "distinct (map f xs) \<Longrightarrow> x \<in> set xs \<Longrightarrow> find (\<lambda>z. f z = f x) xs = Some x"
  by (induction xs) (auto simp: image_iff)

lemma admin_required_admin:
  "verify_jwt_in_request e req = Some c \<Longrightarrow> get_is_admin c \<Longrightarrow>
     admin_required e fn req s = fn c s"
  by (simp add: admin_required_def)
section \<open>Deleting a place\<close>

lemma delete_place_fn_found:
  assumes "find (\<lambda>z. p_id z = pid) (place_table s) = Some y"
  shows "delete_place_fn e pid c s =
           (if db_raises e QueryDelete = None \<and> db_raises e SessionDelete = None
               \<and> db_raises e SessionCommit = None
            then ((200, Message ''Place deleted successfully''),
                  s\<lparr>review_table := filter (\<lambda>r. place_id r \<noteq> pid) (review_table s),
                    place_table := filter (\<lambda>q. p_id q \<noteq> p_id y) (place_table s)\<rparr>)
            else ((500, Error ''Failed to delete place''), s))"
  using assms by (auto simp: delete_place_fn_def db_exec_def split: option.splits)

text \<open>
  C1. Let \<open>p\<close> be a place of the store and the caller an administrator. When no
  database call raises, \<^verbatim>\<open>delete_place\<close> answers 200 and the new store is the old one
  without the rows of \<open>p\<close>'s id and without the reviews whose \<open>place_id\<close> is that id:
  \<open>p\<close> is gone, no review of it is left, and when it had no review the reviews are
  untouched. When the bulk delete, the delete or the commit raises, the answer is 500
  and the store is the one the request started from.
\<close>

theorem delete_place_atomic:
  assumes "p \<in> set (place_table s)"
    and "verify_jwt_in_request e req = Some c"
    and "get_is_admin c"
  shows "(db_raises e QueryDelete = None \<and> db_raises e SessionDelete = None
            \<and> db_raises e SessionCommit = None \<longrightarrow>
          delete_place e req (p_id p) s =
            ((200, Message ''Place deleted successfully''),
             s\<lparr>review_table := filter (\<lambda>r. place_id r \<noteq> p_id p) (review_table s),
               place_table := filter (\<lambda>q. p_id q \<noteq> p_id p) (place_table s)\<rparr>)
          \<and> p \<notin> set (place_table (snd (delete_place e req (p_id p) s)))
          \<and> (\<forall>r \<in> set (review_table (snd (delete_place e req (p_id p) s))).
                place_id r \<noteq> p_id p)
          \<and> (filter (\<lambda>r. place_id r = p_id p) (review_table s) = [] \<longrightarrow>
                review_table (snd (delete_place e req (p_id p) s)) = review_table s))
       \<and> (db_raises e QueryDelete \<noteq> None \<or> db_raises e SessionDelete \<noteq> None
            \<or> db_raises e SessionCommit \<noteq> None \<longrightarrow>
          delete_place e req (p_id p) s = ((500, Error ''Failed to delete place''), s))"
proof -
  from assms(1) obtain y where y: "find (\<lambda>z. p_id z = p_id p) (place_table s) = Some y"
    and yp: "p_id y = p_id p"
    using find_by_key [of p "place_table s" p_id] by blast
  have eq: "delete_place e req (p_id p) s = delete_place_fn e (p_id p) c s"
    by (simp add: delete_place_def admin_required_admin [OF assms(2,3)])
  have keep: "filter (\<lambda>r. place_id r = p_id p) (review_table s) = [] \<Longrightarrow>
      filter (\<lambda>r. place_id r \<noteq> p_id p) (review_table s) = review_table s"
    by (simp add: filter_empty_conv)
  show ?thesis
    unfolding eq delete_place_fn_found [OF y] yp
    using keep by auto
qed

theorem delete_place_atomic_witness:
  "delete_place demo_env admin_request ''p1'' demo_store =
     ((200, Message ''Place deleted successfully''),
      \<lparr>user_table = [admin_user, demo_user], place_table = [cozy_cabin],
       review_table = [review2, review3]\<rparr>)
   \<and> delete_place failing_env admin_request ''p1'' demo_store =
     ((500, Error ''Failed to delete place''), demo_store)"
proof -
  have p: "beach_house \<in> set (place_table demo_store)"
    by (simp add: demo_store_def)
  have v: "verify_jwt_in_request demo_env admin_request = Some admin_claims"
    "verify_jwt_in_request failing_env admin_request = Some admin_claims"
    by (simp_all add: verify_jwt_in_request_def failing_env_def demo_env_def admin_request_def)
  have a: "get_is_admin admin_claims"
    by (simp add: admin_claims_def)
  have id: "p_id beach_house = ''p1''"
    by (simp add: beach_house_def)
  show ?thesis
    using delete_place_atomic [OF p v(1) a] delete_place_atomic [OF p v(2) a]
    by (simp add: id demo_env_def failing_env_def demo_store_def beach_house_def cozy_cabin_def
        review1_def review2_def review3_def)
qed
section \<open>Deleting a user\<close>

lemma delete_user_fn_found:
  assumes "find (\<lambda>z. u_id z = uid) (user_table s) = Some y"
  shows "delete_user_fn e uid c s =
           (if db_raises e QueryDelete = None \<and> db_raises e QueryUpdate = None
               \<and> db_raises e SessionDelete = None \<and> db_raises e SessionCommit = None
            then ((200, Message ''User deleted successfully''),
                  s\<lparr>review_table := filter (\<lambda>r. user_id r \<noteq> uid) (review_table s),
                    place_table :=
                      map (\<lambda>p. if owner_id p = Some uid then p\<lparr>owner_id := None\<rparr> else p)
                        (place_table s),
                    user_table := filter (\<lambda>x. u_id x \<noteq> u_id y) (user_table s)\<rparr>)
            else ((500, Error ''Failed to delete user''), s))"
  using assms by (auto simp: delete_user_fn_def db_exec_def split: option.splits)

text \<open>
  C2. Let \<open>u\<close> be a user of the store and the caller an administrator. When no
  database call raises, \<^verbatim>\<open>delete_user\<close> answers 200 and the new store is the old one
  without the reviews whose \<open>user_id\<close> is \<open>u\<close>'s id, with \<open>owner_id\<close> set to null on the
  places \<open>u\<close> owned, and without \<open>u\<close>: no place is removed, and every place keeps its
  id, title, description and price (and its owner when that was not \<open>u\<close>). When the bulk
  delete, the bulk update, the delete or the commit raises, the answer is 500 and the
  store is the one the request started from.
\<close>

theorem delete_user_atomic:
  assumes "u \<in> set (user_table s)"
    and "verify_jwt_in_request e req = Some c"
    and "get_is_admin c"
  shows "(db_raises e QueryDelete = None \<and> db_raises e QueryUpdate = None
            \<and> db_raises e SessionDelete = None \<and> db_raises e SessionCommit = None \<longrightarrow>
          delete_user e req (u_id u) s =
            ((200, Message ''User deleted successfully''),
             s\<lparr>review_table := filter (\<lambda>r. user_id r \<noteq> u_id u) (review_table s),
               place_table :=
                 map (\<lambda>p. if owner_id p = Some (u_id u) then p\<lparr>owner_id := None\<rparr> else p)
                   (place_table s),
               user_table := filter (\<lambda>x. u_id x \<noteq> u_id u) (user_table s)\<rparr>)
          \<and> u \<notin> set (user_table (snd (delete_user e req (u_id u) s)))
          \<and> (\<forall>r \<in> set (review_table (snd (delete_user e req (u_id u) s))).
                user_id r \<noteq> u_id u)
          \<and> length (place_table (snd (delete_user e req (u_id u) s))) = length (place_table s)
          \<and> (\<forall>i < length (place_table s).
                p_id (place_table (snd (delete_user e req (u_id u) s)) ! i)
                  = p_id (place_table s ! i)
                \<and> title (place_table (snd (delete_user e req (u_id u) s)) ! i)
                  = title (place_table s ! i)
                \<and> description (place_table (snd (delete_user e req (u_id u) s)) ! i)
                  = description (place_table s ! i)
                \<and> price (place_table (snd (delete_user e req (u_id u) s)) ! i)
                  = price (place_table s ! i)
                \<and> owner_id (place_table (snd (delete_user e req (u_id u) s)) ! i)
                  = (if owner_id (place_table s ! i) = Some (u_id u) then None
                     else owner_id (place_table s ! i))))
       \<and> (db_raises e QueryDelete \<noteq> None \<or> db_raises e QueryUpdate \<noteq> None
            \<or> db_raises e SessionDelete \<noteq> None \<or> db_raises e SessionCommit \<noteq> None \<longrightarrow>
          delete_user e req (u_id u) s = ((500, Error ''Failed to delete user''), s))"
proof -
  from assms(1) obtain y where y: "find (\<lambda>z. u_id z = u_id u) (user_table s) = Some y"
    and yu: "u_id y = u_id u"
    using find_by_key [of u "user_table s" u_id] by blast
  have eq: "delete_user e req (u_id u) s = delete_user_fn e (u_id u) c s"
    by (simp add: delete_user_def admin_required_admin [OF assms(2,3)])
  show ?thesis
    unfolding eq delete_user_fn_found [OF y] yu
    by auto
qed

theorem delete_user_atomic_witness:
  "delete_user demo_env admin_request ''u2'' demo_store =
     ((200, Message ''User deleted successfully''),
      \<lparr>user_table = [admin_user],
       place_table = [beach_house\<lparr>owner_id := None\<rparr>, cozy_cabin],
       review_table = [review2]\<rparr>)
   \<and> delete_user failing_env admin_request ''u2'' demo_store =
     ((500, Error ''Failed to delete user''), demo_store)"
proof -
  have u: "demo_user \<in> set (user_table demo_store)"
    by (simp add: demo_store_def)
  have v: "verify_jwt_in_request demo_env admin_request = Some admin_claims"
    "verify_jwt_in_request failing_env admin_request = Some admin_claims"
    by (simp_all add: verify_jwt_in_request_def failing_env_def demo_env_def admin_request_def)
  have a: "get_is_admin admin_claims"
    by (simp add: admin_claims_def)
  have id: "u_id demo_user = ''u2''"
    by (simp add: demo_user_def)
  show ?thesis
    using delete_user_atomic [OF u v(1) a] delete_user_atomic [OF u v(2) a]
    by (simp add: id demo_env_def failing_env_def demo_store_def beach_house_def cozy_cabin_def
        review1_def review2_def review3_def admin_user_def demo_user_def)
qed
section \<open>The admin gate\<close>

lemma verify_jwt_in_request_None:
  "verify_jwt_in_request e req = None \<longleftrightarrow>
     (bearer req = None \<or> (\<exists>t. bearer req = Some t \<and> decode_token (secret_key e) t = None))"
  by (simp add: verify_jwt_in_request_def split: option.splits)

lemma verify_jwt_in_request_Some:
  "verify_jwt_in_request e req = Some c \<longleftrightarrow>
     (\<exists>t. bearer req = Some t \<and> decode_token (secret_key e) t = Some c)"
  by (simp add: verify_jwt_in_request_def split: option.splits)

text \<open>
  C5. \<^verbatim>\<open>admin_required\<close> on any wrapped function \<open>fn\<close>: with no bearer token, or one
  that does not verify, the answer is 401 whatever \<open>fn\<close> is and the store is untouched;
  with a token that verifies to claims whose \<open>is_admin\<close> is false or absent, the answer
  is 403, again whatever \<open>fn\<close> is; otherwise the result is that of \<open>fn\<close>, run with the
  verified claims. The five decorated routes are instances: they answer 401 and 403
  in the same cases and run their bodies otherwise.
\<close>

theorem admin_required_gate:
  "((bearer req = None \<or> (\<exists>t. bearer req = Some t \<and> decode_token (secret_key e) t = None)) \<longrightarrow>
      (\<forall>fn. admin_required e fn req s = ((401, Error ''Authentication required''), s))
      \<and> create_place e req data s = ((401, Error ''Authentication required''), s)
      \<and> update_place e req pid data s = ((401, Error ''Authentication required''), s)
      \<and> delete_place e req pid s = ((401, Error ''Authentication required''), s)
      \<and> list_users e req s = ((401, Error ''Authentication required''), s)
      \<and> delete_user e req uid s = ((401, Error ''Authentication required''), s))
   \<and> (\<forall>t c. bearer req = Some t \<and> decode_token (secret_key e) t = Some c
          \<and> \<not> get_is_admin c \<longrightarrow>
      (\<forall>fn. admin_required e fn req s = ((403, Error ''Admin privileges required''), s))
      \<and> create_place e req data s = ((403, Error ''Admin privileges required''), s)
      \<and> update_place e req pid data s = ((403, Error ''Admin privileges required''), s)
      \<and> delete_place e req pid s = ((403, Error ''Admin privileges required''), s)
      \<and> list_users e req s = ((403, Error ''Admin privileges required''), s)
      \<and> delete_user e req uid s = ((403, Error ''Admin privileges required''), s))
   \<and> (\<forall>t c. bearer req = Some t \<and> decode_token (secret_key e) t = Some c
          \<and> get_is_admin c \<longrightarrow>
      (\<forall>fn. admin_required e fn req s = fn c s)
      \<and> create_place e req data s = create_place_fn e data c s
      \<and> update_place e req pid data s = update_place_fn e pid data c s
      \<and> delete_place e req pid s = delete_place_fn e pid c s
      \<and> list_users e req s = list_users_fn c s
      \<and> delete_user e req uid s = delete_user_fn e uid c s)"
proof -
  have none: "admin_required e fn req s = ((401, Error ''Authentication required''), s)"
    if "verify_jwt_in_request e req = None" for fn
    using that by (simp add: admin_required_def)
  have user: "admin_required e fn req s = ((403, Error ''Admin privileges required''), s)"
    if "verify_jwt_in_request e req = Some c" "\<not> get_is_admin c" for fn c
    using that by (simp add: admin_required_def)
  have admin: "admin_required e fn req s = fn c s"
    if "verify_jwt_in_request e req = Some c" "get_is_admin c" for fn c
    using that by (rule admin_required_admin)
  have gated: "create_place e req data s = admin_required e (create_place_fn e data) req s"
    "update_place e req pid data s = admin_required e (update_place_fn e pid data) req s"
    "delete_place e req pid s = admin_required e (delete_place_fn e pid) req s"
    "list_users e req s = admin_required e list_users_fn req s"
    "delete_user e req uid s = admin_required e (delete_user_fn e uid) req s"
    by (simp_all add: create_place_def update_place_def delete_place_def list_users_def
        delete_user_def)
  have "bearer req = None \<or> (\<exists>t. bearer req = Some t \<and> decode_token (secret_key e) t = None) \<Longrightarrow>
      verify_jwt_in_request e req = None"
    by (simp add: verify_jwt_in_request_None)
  moreover have "bearer req = Some t \<and> decode_token (secret_key e) t = Some c \<Longrightarrow>
      verify_jwt_in_request e req = Some c" for t c
    by (auto simp: verify_jwt_in_request_Some)
  ultimately show ?thesis
    unfolding gated using none user admin by blast
qed

theorem admin_required_gate_witness:
  "list_users demo_env anonymous_request demo_store =
     ((401, Error ''Authentication required''), demo_store)
   \<and> list_users demo_env forged_request demo_store =
     ((401, Error ''Authentication required''), demo_store)
   \<and> list_users demo_env demo_request demo_store =
     ((403, Error ''Admin privileges required''), demo_store)
   \<and> list_users demo_env admin_request demo_store =
     ((200, ObjList [user_to_dict admin_user, user_to_dict demo_user]), demo_store)"
proof -
  have b: "bearer anonymous_request = None"
    "bearer forged_request = Some (Signed ''guessed'' admin_claims)
       \<and> decode_token (secret_key demo_env) (Signed ''guessed'' admin_claims) = None"
    "bearer demo_request = Some (Signed ''dev-secret'' demo_claims)
       \<and> decode_token (secret_key demo_env) (Signed ''dev-secret'' demo_claims) = Some demo_claims
       \<and> \<not> get_is_admin demo_claims"
    "bearer admin_request = Some (Signed ''dev-secret'' admin_claims)
       \<and> decode_token (secret_key demo_env) (Signed ''dev-secret'' admin_claims) = Some admin_claims
       \<and> get_is_admin admin_claims"
    by (simp_all add: anonymous_request_def forged_request_def demo_request_def
        admin_request_def demo_env_def demo_claims_def admin_claims_def)
  show ?thesis
    using admin_required_gate [of anonymous_request demo_env demo_store no_data "[]" "[]"]
      admin_required_gate [of forged_request demo_env demo_store no_data "[]" "[]"]
      admin_required_gate [of demo_request demo_env demo_store no_data "[]" "[]"]
      admin_required_gate [of admin_request demo_env demo_store no_data "[]" "[]"]
      b
    by (simp add: list_users_fn_def demo_store_def)
qed
section \<open>Reading one user\<close>

text \<open>
  C10. For a user \<open>u\<close> of the store (ids are the primary key), \<^verbatim>\<open>get_user\<close> on
  \<open>u\<close>'s id answers 200 with exactly the keys \<^verbatim>\<open>id\<close>, \<^verbatim>\<open>first_name\<close>, \<^verbatim>\<open>last_name\<close>,
  \<^verbatim>\<open>email\<close> and \<^verbatim>\<open>is_admin\<close> of \<open>u\<close>; the answer has no \<^verbatim>\<open>password\<close> key and does not
  depend on the stored hash. The answer is the same for every request, with or
  without a bearer token, while \<^verbatim>\<open>list_users\<close> answers 401 without one. An id that
  no user has yields 404.
\<close>

theorem get_user_public:
  "(distinct (map u_id (user_table s)) \<and> u \<in> set (user_table s) \<longrightarrow>
      get_user req (u_id u) s =
        ((200, Obj [(''id'', JStr (u_id u)), (''first_name'', JStr (first_name u)),
                    (''last_name'', JStr (last_name u)), (''email'', JStr (email u)),
                    (''is_admin'', JBool (is_admin u))]), s)
      \<and> get_user \<lparr>bearer = None\<rparr> (u_id u) s = get_user req (u_id u) s
      \<and> list_users e \<lparr>bearer = None\<rparr> s = ((401, Error ''Authentication required''), s))
   \<and> ''password'' \<notin> set (map fst (user_to_dict u))
   \<and> user_to_dict (u\<lparr>password := h\<rparr>) = user_to_dict u
   \<and> (uid \<notin> set (map u_id (user_table s)) \<longrightarrow>
        get_user req uid s = ((404, Error ''User not found''), s))"
proof -
  have found: "get_user r (u_id u) s = ((200, Obj (user_to_dict u)), s)"
    if "distinct (map u_id (user_table s))" "u \<in> set (user_table s)" for r
    using find_unique_key [OF that] by (simp add: get_user_def)
  have missing: "get_user req uid s = ((404, Error ''User not found''), s)"
    if "uid \<notin> set (map u_id (user_table s))"
  proof -
    have "find (\<lambda>x. u_id x = uid) (user_table s) = None"
      using that by (auto simp: find_None_iff)
    then show ?thesis by (simp add: get_user_def)
  qed
  have anon: "list_users e \<lparr>bearer = None\<rparr> s = ((401, Error ''Authentication required''), s)"
    by (simp add: list_users_def admin_required_def verify_jwt_in_request_def)
  show ?thesis
    using found missing anon by (simp add: user_to_dict_def)
qed

theorem get_user_public_witness:
  "get_user anonymous_request ''u2'' demo_store =
     ((200, Obj [(''id'', JStr ''u2''), (''first_name'', JStr ''Demo''),
                 (''last_name'', JStr ''User''), (''email'', JStr ''demo@example.com''),
                 (''is_admin'', JBool False)]), demo_store)
   \<and> get_user anonymous_request ''u9'' demo_store = ((404, Error ''User not found''), demo_store)"
proof -
  have d: "distinct (map u_id (user_table demo_store)) \<and> demo_user \<in> set (user_table demo_store)"
    by (simp add: demo_store_def admin_user_def demo_user_def)
  have m: "''u9'' \<notin> set (map u_id (user_table demo_store))"
    by (simp add: demo_store_def admin_user_def demo_user_def)
  show ?thesis
    using get_user_public [of demo_store demo_user anonymous_request demo_env "[]" "''u9''"] d m
    by (simp add: demo_user_def)
qed
section \<open>Deleting a review\<close>

lemma filter_key_remove1:
  "distinct (map f xs) \<Longrightarrow> x \<in> set xs \<Longrightarrow> filter (\<lambda>z. f z \<noteq> f x) xs = remove1 x xs"
proof (induction xs)
  case Nil
  then show ?case by simp
next
  case (Cons a xs)
  show ?case
  proof (cases "a = x")
    case True
    with Cons.prems have "\<forall>z \<in> set xs. f z \<noteq> f x"
      by (auto simp: image_iff)
    then have "filter (\<lambda>z. f z \<noteq> f x) xs = xs"
      by (simp add: filter_id_conv)
    with True show ?thesis by simp
  next
    case False
    with Cons.prems have "x \<in> set xs" "f a \<noteq> f x" "distinct (map f xs)"
      by (auto simp: image_iff)
    with Cons.IH False show ?thesis by simp
  qed
qed

lemma delete_review_found:
  assumes "verify_jwt_in_request e req = Some c"
    and "find (\<lambda>z. r_id z = rid) (review_table s) = Some r"
  shows "delete_review e req rid s =
           (if \<not> get_is_admin c \<and> user_id r \<noteq> sub c
            then ((403, Error ''Unauthorized action''), s)
            else if db_raises e SessionDelete = None \<and> db_raises e SessionCommit = None
            then ((200, Message ''Review deleted successfully''),
                  s\<lparr>review_table := filter (\<lambda>x. r_id x \<noteq> r_id r) (review_table s)\<rparr>)
            else ((500, Error ''Failed to delete review''), s))"
  using assms by (auto simp: delete_review_def db_exec_def Let_def split: option.splits)

text \<open>
  C6. Let the caller be authenticated with claims \<open>c\<close> and \<open>r\<close> a review of the store
  (ids are the primary key). If the caller is neither an administrator nor the
  review's \<open>user_id\<close>, \<^verbatim>\<open>delete_review\<close> answers 403 and the store is unchanged. If the
  caller is one of the two and the database raises nothing, it answers 200 and the
  new store is the old one with exactly \<open>r\<close> removed; a database exception gives 500
  and the unchanged store. So, the database permitting, the deletion succeeds if and
  only if the caller owns the review or is an administrator.
\<close>

theorem delete_review_authorized:
  assumes "verify_jwt_in_request e req = Some c"
    and "distinct (map r_id (review_table s))"
    and "r \<in> set (review_table s)"
  shows "(\<not> get_is_admin c \<and> user_id r \<noteq> sub c \<longrightarrow>
            delete_review e req (r_id r) s = ((403, Error ''Unauthorized action''), s))
       \<and> ((get_is_admin c \<or> user_id r = sub c)
            \<and> db_raises e SessionDelete = None \<and> db_raises e SessionCommit = None \<longrightarrow>
            delete_review e req (r_id r) s =
              ((200, Message ''Review deleted successfully''),
               s\<lparr>review_table := remove1 r (review_table s)\<rparr>)
            \<and> set (review_table (snd (delete_review e req (r_id r) s)))
                = set (review_table s) - {r})
       \<and> ((get_is_admin c \<or> user_id r = sub c)
            \<and> (db_raises e SessionDelete \<noteq> None \<or> db_raises e SessionCommit \<noteq> None) \<longrightarrow>
            delete_review e req (r_id r) s = ((500, Error ''Failed to delete review''), s))
       \<and> (db_raises e SessionDelete = None \<and> db_raises e SessionCommit = None \<longrightarrow>
            (fst (fst (delete_review e req (r_id r) s)) = 200
               \<longleftrightarrow> get_is_admin c \<or> user_id r = sub c))"
proof -
  have f: "find (\<lambda>z. r_id z = r_id r) (review_table s) = Some r"
    using find_unique_key [OF assms(2,3)] .
  have rm: "filter (\<lambda>x. r_id x \<noteq> r_id r) (review_table s) = remove1 r (review_table s)"
    using filter_key_remove1 [OF assms(2,3)] .
  have d: "distinct (review_table s)"
    using assms(2) by (simp add: distinct_map)
  show ?thesis
    unfolding delete_review_found [OF assms(1) f] rm
    using d by auto
qed

theorem delete_review_authorized_witness:
  "delete_review demo_env admin_request ''r1'' demo_store =
     ((200, Message ''Review deleted successfully''),
      demo_store\<lparr>review_table := [review2, review3]\<rparr>)
   \<and> delete_review demo_env demo_request ''r1'' demo_store =
     ((200, Message ''Review deleted successfully''),
      demo_store\<lparr>review_table := [review2, review3]\<rparr>)
   \<and> delete_review demo_env demo_request ''r2'' demo_store =
     ((403, Error ''Unauthorized action''), demo_store)"
proof -
  have v: "verify_jwt_in_request demo_env admin_request = Some admin_claims"
    "verify_jwt_in_request demo_env demo_request = Some demo_claims"
    by (simp_all add: verify_jwt_in_request_def demo_env_def admin_request_def demo_request_def)
  have d: "distinct (map r_id (review_table demo_store))"
    by (simp add: demo_store_def review1_def review2_def review3_def)
  have m: "review1 \<in> set (review_table demo_store)" "review2 \<in> set (review_table demo_store)"
    by (simp_all add: demo_store_def)
  have c: "get_is_admin admin_claims" "\<not> get_is_admin demo_claims" "sub demo_claims = ''u2''"
    by (simp_all add: admin_claims_def demo_claims_def)
  have r: "r_id review1 = ''r1''" "r_id review2 = ''r2''" "user_id review1 = ''u2''"
    "user_id review2 = ''u1''" "review1 \<noteq> review2" "review1 \<noteq> review3"
    by (simp_all add: review1_def review2_def review3_def)
  have n: "db_raises demo_env SessionDelete = None" "db_raises demo_env SessionCommit = None"
    by (simp_all add: demo_env_def)
  show ?thesis
    using delete_review_authorized [OF v(1) d m(1)] delete_review_authorized [OF v(2) d m(1)]
      delete_review_authorized [OF v(2) d m(2)] c r n
    by (simp add: demo_store_def)
qed

section \<open>Creating a place\<close>

lemma create_place_fn_valid:
  assumes "dict_get (j_title data) = Some t" and "t \<noteq> []"
    and "dict_get (j_price data) = Some v"
  shows "create_place_fn e data c s =
           (case py_int (int_max_str_digits e) v of
              Inl err \<Rightarrow> (unhandled, s)
            | Inr n \<Rightarrow>
                if sqlite_integer n \<and> db_raises e SessionCommit = None
                then ((201, Obj (place_to_dict
                              \<lparr>p_id = gen_id e, title = t,
                               description = dict_get (j_description data),
                               price = Some n, owner_id = None\<rparr>)),
                      s\<lparr>place_table := place_table s @
                           [\<lparr>p_id = gen_id e, title = t,
                             description = dict_get (j_description data),
                             price = Some n, owner_id = None\<rparr>]\<rparr>)
                else (unhandled, s))"
  using assms
  by (auto simp: create_place_fn_def db_exec_def Let_def split: sum.splits option.splits)

text \<open>
  C7, as the code has it. For an administrator, \<^verbatim>\<open>create_place\<close> answers 400 and adds
  no place when the title is absent, null or empty, or the price is absent or null.
  Otherwise it converts the price with \<^verbatim>\<open>int()\<close>. If the conversion yields \<open>n\<close>, \<open>n\<close> is
  an integer SQLite can store and the commit raises nothing, it answers 201 and
  appends the place with the given title and description and the price \<open>n\<close>, whatever
  the sign of \<open>n\<close>. If the conversion raises, or \<open>n\<close> is no integer SQLite can store,
  or the commit raises, the request ends with status 500 and no place is added.
\<close>

theorem create_place_validation:
  assumes "verify_jwt_in_request e req = Some c"
    and "get_is_admin c"
  shows "(\<not> truthy (dict_get (j_title data)) \<or> dict_get (j_price data) = None \<longrightarrow>
            create_place e req data s = ((400, Error ''Missing fields''), s))
       \<and> (\<forall>t v n. dict_get (j_title data) = Some t \<and> t \<noteq> []
              \<and> dict_get (j_price data) = Some v
              \<and> py_int (int_max_str_digits e) v = Inr n \<and> sqlite_integer n
              \<and> db_raises e SessionCommit = None \<longrightarrow>
            create_place e req data s =
              ((201, Obj (place_to_dict
                       \<lparr>p_id = gen_id e, title = t,
                        description = dict_get (j_description data),
                        price = Some n, owner_id = None\<rparr>)),
               s\<lparr>place_table := place_table s @
                    [\<lparr>p_id = gen_id e, title = t,
                      description = dict_get (j_description data),
                      price = Some n, owner_id = None\<rparr>]\<rparr>))
       \<and> (\<forall>t v. dict_get (j_title data) = Some t \<and> t \<noteq> []
              \<and> dict_get (j_price data) = Some v
              \<and> ((\<exists>err. py_int (int_max_str_digits e) v = Inl err)
                  \<or> (\<exists>n. py_int (int_max_str_digits e) v = Inr n \<and> \<not> sqlite_integer n)
                  \<or> db_raises e SessionCommit \<noteq> None) \<longrightarrow>
            create_place e req data s = (unhandled, s))"
proof -
  have eq: "create_place e req data s = create_place_fn e data c s"
    by (simp add: create_place_def admin_required_admin [OF assms])
  have missing: "create_place_fn e data c s = ((400, Error ''Missing fields''), s)"
    if "\<not> truthy (dict_get (j_title data)) \<or> dict_get (j_price data) = None"
    using that by (auto simp: create_place_fn_def Let_def)
  have valid: "create_place_fn e data c s =
      ((201, Obj (place_to_dict
               \<lparr>p_id = gen_id e, title = t, description = dict_get (j_description data),
                price = Some n, owner_id = None\<rparr>)),
       s\<lparr>place_table := place_table s @
            [\<lparr>p_id = gen_id e, title = t, description = dict_get (j_description data),
              price = Some n, owner_id = None\<rparr>]\<rparr>)"
    if "dict_get (j_title data) = Some t" "t \<noteq> []" "dict_get (j_price data) = Some v"
      "py_int (int_max_str_digits e) v = Inr n" "sqlite_integer n"
      "db_raises e SessionCommit = None" for t v n
    using create_place_fn_valid [OF that(1-3), of e c s] that(4-6) by simp
  have fails: "create_place_fn e data c s = (unhandled, s)"
    if "dict_get (j_title data) = Some t" "t \<noteq> []" "dict_get (j_price data) = Some v"
      "(\<exists>err. py_int (int_max_str_digits e) v = Inl err)
       \<or> (\<exists>n. py_int (int_max_str_digits e) v = Inr n \<and> \<not> sqlite_integer n)
       \<or> db_raises e SessionCommit \<noteq> None" for t v
    using create_place_fn_valid [OF that(1-3), of e c s] that(4)
    by (auto split: sum.splits)
  show ?thesis
    unfolding eq using missing valid fails by blast
qed

theorem create_place_validation_witness:
  "create_place demo_env admin_request
       (no_data\<lparr>j_title := Val [], j_price := Val (PyInt 50)\<rparr>) demo_store
     = ((400, Error ''Missing fields''), demo_store)
   \<and> create_place demo_env admin_request (no_data\<lparr>j_title := Val ''Beach Hut''\<rparr>) demo_store
     = ((400, Error ''Missing fields''), demo_store)
   \<and> create_place demo_env admin_request
       (no_data\<lparr>j_title := Val ''Beach Hut'',
                j_price := Val (PyFloat (Finite 3631099196745319 (- 48)))\<rparr>) demo_store
     = ((201, Obj [(''id'', JStr ''id-new''), (''title'', JStr ''Beach Hut''),
                   (''description'', JNull), (''price'', JInt 12), (''owner_id'', JNull),
                   (''amenities'',
                    JList [JStr ''WiFi'', JStr ''Sea view'', JStr ''Air conditioning''])]),
        demo_store\<lparr>place_table :=
          [beach_house, cozy_cabin,
           \<lparr>p_id = ''id-new'', title = ''Beach Hut'', description = None, price = Some 12,
            owner_id = None\<rparr>]\<rparr>)
   \<and> create_place demo_env admin_request
       (no_data\<lparr>j_title := Val ''Beach Hut'', j_price := Val (PyStr ''abc'')\<rparr>) demo_store
     = (unhandled, demo_store)
   \<and> create_place demo_env admin_request
       (no_data\<lparr>j_title := Val ''Beach Hut'', j_price := Val (PyInt (2 ^ 63))\<rparr>) demo_store
     = (unhandled, demo_store)"
proof -
  have v: "verify_jwt_in_request demo_env admin_request = Some admin_claims"
    by (simp add: verify_jwt_in_request_def demo_env_def admin_request_def)
  have a: "get_is_admin admin_claims"
    by (simp add: admin_claims_def)
  have am: "amenities ''Beach Hut'' = [''WiFi'', ''Sea view'', ''Air conditioning'']"
    by (simp add: amenities_def lower_def lower_char_def upper_letters_def lower_letters_def)
  have conv: "int_of_str 4300 ''abc'' = Inl ValueError"
    "sqlite_integer 12" "sqlite_integer 50" "\<not> sqlite_integer 9223372036854775808"
    by (simp_all add: int_of_str_def int_space_def digits_ok_def is_digit_def sqlite_integer_def)
  have env: "int_max_str_digits demo_env = 4300" "db_raises demo_env SessionCommit = None"
    "gen_id demo_env = ''id-new''"
    by (simp_all add: demo_env_def)
  show ?thesis
    using create_place_validation
        [OF v a, of "no_data\<lparr>j_title := Val [], j_price := Val (PyInt 50)\<rparr>" demo_store]
      create_place_validation [OF v a, of "no_data\<lparr>j_title := Val ''Beach Hut''\<rparr>" demo_store]
      create_place_validation
        [OF v a, of "no_data\<lparr>j_title := Val ''Beach Hut'',
                j_price := Val (PyFloat (Finite 3631099196745319 (- 48)))\<rparr>" demo_store]
      create_place_validation
        [OF v a, of "no_data\<lparr>j_title := Val ''Beach Hut'', j_price := Val (PyStr ''abc'')\<rparr>"
          demo_store]
      create_place_validation
        [OF v a, of "no_data\<lparr>j_title := Val ''Beach Hut'', j_price := Val (PyInt (2 ^ 63))\<rparr>"
          demo_store]
    by (simp add: no_data_def env conv demo_store_def place_to_dict_def am)
qed

text \<open>
  C7 as the specification words it fails: an administrator's request with the title
  \<^verbatim>\<open>Hut\<close> and the price \<open>-5\<close> is answered 201, and the place is stored with that price.
\<close>

theorem create_place_negative_price:
  "create_place demo_env admin_request
      (no_data\<lparr>j_title := Val ''Hut'', j_price := Val (PyInt (- 5))\<rparr>) demo_store
     = ((201, Obj [(''id'', JStr ''id-new''), (''title'', JStr ''Hut''),
                   (''description'', JNull), (''price'', JInt (- 5)), (''owner_id'', JNull),
                   (''amenities'', JList [])]),
        demo_store\<lparr>place_table :=
          [beach_house, cozy_cabin,
           \<lparr>p_id = ''id-new'', title = ''Hut'', description = None, price = Some (- 5),
            owner_id = None\<rparr>]\<rparr>)"
proof -
  have am: "amenities ''Hut'' = []"
    by (simp add: amenities_def lower_def lower_char_def upper_letters_def lower_letters_def)
  show ?thesis
    by (simp add: create_place_def admin_required_def verify_jwt_in_request_def
        create_place_fn_def db_exec_def no_data_def demo_env_def demo_store_def
        admin_request_def admin_claims_def place_to_dict_def sqlite_integer_def am)
qed

section \<open>Login\<close>

text \<open>
  C9. Let \<open>u\<close> be a stored user (emails are unique, and \<open>u\<close>'s is not empty), and let
  the request carry an email that \<^verbatim>\<open>strip()\<close> and \<^verbatim>\<open>lower()\<close> turn into \<open>u\<close>'s, and a
  non-empty password that verifies against \<open>u\<close>'s stored hash. Then \<^verbatim>\<open>login\<close> answers 200 with
  a token that verifies under the application's key, and its claims carry \<open>u\<close>'s id as
  the subject and as \<^verbatim>\<open>user_id\<close>, \<open>u\<close>'s email and \<open>u\<close>'s admin flag.
\<close>

theorem login_issues_token:
  assumes "u \<in> set (user_table s)"
    and "distinct (map email (user_table s))"
    and "email u \<noteq> []"
    and "lower (strip (or_empty (dict_get (j_email data)))) = email u"
    and "or_empty (dict_get (j_password data)) \<noteq> []"
    and "check_password_hash e (password u) (or_empty (dict_get (j_password data)))"
  shows "\<exists>tok c. login e data s = (200, AccessToken tok)
           \<and> tok = create_access_token e (u_id u) (u_id u) (email u) (is_admin u)
           \<and> decode_token (secret_key e) tok = Some c
           \<and> verify_jwt_in_request e \<lparr>bearer = Some tok\<rparr> = Some c
           \<and> sub c = u_id u
           \<and> claim_user_id c = Some (u_id u)
           \<and> claim_email c = Some (email u)
           \<and> claim_is_admin c = Some (is_admin u)"
proof -
  have f: "find (\<lambda>x. email x = email u) (user_table s) = Some u"
    using find_unique_key [OF assms(2,1)] .
  have "login e data s =
          (200, AccessToken (create_access_token e (u_id u) (u_id u) (email u) (is_admin u)))"
    using assms(3-6) f by (simp add: login_def Let_def)
  then show ?thesis
    by (simp add: create_access_token_def verify_jwt_in_request_def)
qed

theorem login_issues_token_witness:
  "login demo_env
      (no_data\<lparr>j_email := Val (CHR 0xA0 # '' Demo@Example.COM'' @ [CHR 0x85]),
               j_password := Val ''DemoPass123''\<rparr>)
      demo_store
     = (200, AccessToken (Signed ''dev-secret'' demo_claims))
   \<and> decode_token (secret_key demo_env) (Signed ''dev-secret'' demo_claims) = Some demo_claims
   \<and> sub demo_claims = u_id demo_user"
proof -
  let ?data = "no_data\<lparr>j_email := Val (CHR 0xA0 # '' Demo@Example.COM'' @ [CHR 0x85]),
               j_password := Val ''DemoPass123''\<rparr>"
  have 1: "demo_user \<in> set (user_table demo_store)"
    by (simp add: demo_store_def)
  have 2: "distinct (map email (user_table demo_store))"
    by (simp add: demo_store_def admin_user_def demo_user_def)
  have 3: "email demo_user \<noteq> []"
    by (simp add: demo_user_def)
  have 4: "lower (strip (or_empty (dict_get (j_email ?data)))) = email demo_user"
    by (simp add: no_data_def demo_user_def lower_def lower_char_def upper_letters_def
        lower_letters_def strip_def isspace_def)
  have 5: "or_empty (dict_get (j_password ?data)) \<noteq> []"
    by (simp add: no_data_def)
  have 6: "check_password_hash demo_env (password demo_user)
             (or_empty (dict_get (j_password ?data)))"
    by (simp add: no_data_def demo_env_def demo_user_def)
  show ?thesis
    using login_issues_token [OF 1 2 3 4 5 6]
    by (auto simp: create_access_token_def demo_env_def demo_claims_def demo_user_def)
qed

text \<open>
  The token is not issued without the password: for the same stored user and email, a
  non-empty password that the hash check refuses is answered 401.
\<close>

lemma login_wrong_password:
  assumes "u \<in> set (user_table s)"
    and "distinct (map email (user_table s))"
    and "email u \<noteq> []"
    and "lower (strip (or_empty (dict_get (j_email data)))) = email u"
    and "or_empty (dict_get (j_password data)) \<noteq> []"
    and "\<not> check_password_hash e (password u) (or_empty (dict_get (j_password data)))"
  shows "login e data s = (401, Error ''Invalid email or password'')"
proof -
  have f: "find (\<lambda>x. email x = email u) (user_table s) = Some u"
    using find_unique_key [OF assms(2,1)] .
  show ?thesis
    using assms(3-6) f by (simp add: login_def Let_def)
qed

section \<open>Registration\<close>

lemma count_unique_key:
  "distinct (map f xs) \<Longrightarrow> x \<in> set xs \<Longrightarrow> length (filter (\<lambda>z. f z = f x) xs) = 1"
proof (induction xs)
  case Nil
  then show ?case by simp
next
  case (Cons a xs)
  show ?case
  proof (cases "a = x")
    case True
    with Cons.prems have "\<forall>z \<in> set xs. f z \<noteq> f x"
      by (auto simp: image_iff)
    then have "filter (\<lambda>z. f z = f x) xs = []"
      by (simp add: filter_empty_conv)
    with True show ?thesis by simp
  next
    case False
    with Cons.prems have "x \<in> set xs" "f a \<noteq> f x" "distinct (map f xs)"
      by (auto simp: image_iff)
    with Cons.IH show ?thesis by simp
  qed
qed

lemma register_taken:
  assumes "truthy (dict_get (j_password data))"
    and "truthy (dict_get (j_first_name data))"
    and "truthy (dict_get (j_last_name data))"
    and "lower (strip (or_empty (dict_get (j_email data)))) \<noteq> []"
    and "u \<in> set (user_table s)"
    and "email u = lower (strip (or_empty (dict_get (j_email data))))"
  shows "register e data s = ((400, Error ''Email already registered''), s)"
proof -
  have "find (\<lambda>x. email x = lower (strip (or_empty (dict_get (j_email data))))) (user_table s)
          \<noteq> None"
    using assms(5,6) by (auto simp: find_None_iff)
  then show ?thesis
    using assms(1-4) by (simp add: register_def Let_def)
qed

lemma register_free:
  assumes "truthy (dict_get (j_password data))"
    and "truthy (dict_get (j_first_name data))"
    and "truthy (dict_get (j_last_name data))"
    and "lower (strip (or_empty (dict_get (j_email data)))) \<noteq> []"
    and "\<forall>u \<in> set (user_table s). email u \<noteq> lower (strip (or_empty (dict_get (j_email data))))"
  shows "register e data s =
           (case db_raises e SessionCommit of
              Some IntegrityError \<Rightarrow> ((400, Error ''Email already registered''), s)
            | Some OtherException \<Rightarrow> ((500, Error ''Failed to create user''), s)
            | None \<Rightarrow>
                ((201, UserAndToken
                    (user_to_dict
                       \<lparr>u_id = gen_id e,
                        first_name = or_empty (dict_get (j_first_name data)),
                        last_name = or_empty (dict_get (j_last_name data)),
                        email = lower (strip (or_empty (dict_get (j_email data)))),
                        password = generate_password_hash e (or_empty (dict_get (j_password data))),
                        is_admin = False\<rparr>)
                    (create_access_token e (gen_id e) (gen_id e)
                       (lower (strip (or_empty (dict_get (j_email data))))) False)),
                 s\<lparr>user_table := user_table s @
                      [\<lparr>u_id = gen_id e,
                        first_name = or_empty (dict_get (j_first_name data)),
                        last_name = or_empty (dict_get (j_last_name data)),
                        email = lower (strip (or_empty (dict_get (j_email data)))),
                        password = generate_password_hash e (or_empty (dict_get (j_password data))),
                        is_admin = False\<rparr>]\<rparr>))"
proof -
  have "find (\<lambda>x. email x = lower (strip (or_empty (dict_get (j_email data))))) (user_table s)
          = None"
    using assms(5) by (auto simp: find_None_iff)
  then show ?thesis
    using assms(1-4)
    by (simp add: register_def Let_def db_exec_def split: option.splits db_error.splits)
qed

lemma register_users:
  "user_table (snd (register e data s)) = user_table s
   \<or> (\<exists>u. user_table (snd (register e data s)) = user_table s @ [u]
          \<and> email u \<noteq> [] \<and> email u \<notin> email ` set (user_table s))"
proof (cases "snd (register e data s) = s")
  case True
  then show ?thesis by simp
next
  case False
  then show ?thesis
    by (auto simp: register_def Let_def db_exec_def find_None_iff
        split: if_splits option.splits db_error.splits)
qed

lemma register_keeps_emails:
  assumes "distinct (map email (user_table s))"
    and "\<forall>u \<in> set (user_table s). email u \<noteq> []"
  shows "distinct (map email (user_table (snd (register e data s))))
       \<and> (\<forall>u \<in> set (user_table (snd (register e data s))). email u \<noteq> [])"
  using register_users [of e data s] assms by auto

text \<open>
  C4. Take a register request whose password, first name and last name are not
  empty and whose email \<^verbatim>\<open>strip()\<close> and \<^verbatim>\<open>lower()\<close> turn into a non-empty \<open>em\<close>. If a
  stored user has the email \<open>em\<close>, \<^verbatim>\<open>register\<close> answers 400 \<^verbatim>\<open>Email already registered\<close>
  and leaves the store as it was, so with unique emails exactly one user has \<open>em\<close>. If
  the commit raises an integrity error, the answer is the same 400 and the store is
  rolled back. When \<open>em\<close> is free and the commit goes through, the first call answers
  201, after which exactly one user has \<open>em\<close> and a second call is answered 400
  \<^verbatim>\<open>Email already registered\<close> without changing the store. And whatever the outcome,
  unique emails stay unique.
\<close>

theorem register_duplicate_email:
  assumes "truthy (dict_get (j_password data))"
    and "truthy (dict_get (j_first_name data))"
    and "truthy (dict_get (j_last_name data))"
    and "em = lower (strip (or_empty (dict_get (j_email data))))"
    and "em \<noteq> []"
  shows "((\<exists>u \<in> set (user_table s). email u = em) \<longrightarrow>
            register e data s = ((400, Error ''Email already registered''), s))
       \<and> (distinct (map email (user_table s)) \<and> (\<exists>u \<in> set (user_table s). email u = em) \<longrightarrow>
            length (filter (\<lambda>u. email u = em) (user_table (snd (register e data s)))) = 1)
       \<and> (db_raises e SessionCommit = Some IntegrityError \<longrightarrow>
            register e data s = ((400, Error ''Email already registered''), s))
       \<and> ((\<forall>u \<in> set (user_table s). email u \<noteq> em) \<and> db_raises e SessionCommit = None \<longrightarrow>
            fst (fst (register e data s)) = 201
            \<and> length (filter (\<lambda>u. email u = em) (user_table (snd (register e data s)))) = 1
            \<and> register e' data (snd (register e data s))
                = ((400, Error ''Email already registered''), snd (register e data s)))
       \<and> (distinct (map email (user_table s)) \<longrightarrow>
            distinct (map email (user_table (snd (register e data s)))))"
proof -
  note valid = assms(1-3) assms(5) [unfolded assms(4)]
  have taken: "register e data s = ((400, Error ''Email already registered''), s)"
    if "u \<in> set (user_table s)" "email u = em" for u
    using register_taken [OF valid that(1)] that(2) assms(4) by simp
  have one: "length (filter (\<lambda>u. email u = em) (user_table (snd (register e data s)))) = 1"
    if "distinct (map email (user_table s))" "u \<in> set (user_table s)" "email u = em" for u
    using count_unique_key [OF that(1,2)] taken [OF that(2,3)] that(3) by simp
  have race: "register e data s = ((400, Error ''Email already registered''), s)"
    if "db_raises e SessionCommit = Some IntegrityError"
  proof (cases "\<exists>u \<in> set (user_table s). email u = em")
    case True
    then show ?thesis using taken by blast
  next
    case False
    then have "\<forall>u \<in> set (user_table s).
        email u \<noteq> lower (strip (or_empty (dict_get (j_email data))))"
      using assms(4) by simp
    from register_free [OF valid this] that show ?thesis by simp
  qed
  have twice: "fst (fst (register e data s)) = 201
      \<and> length (filter (\<lambda>u. email u = em) (user_table (snd (register e data s)))) = 1
      \<and> register e' data (snd (register e data s))
          = ((400, Error ''Email already registered''), snd (register e data s))"
    if free: "\<forall>u \<in> set (user_table s). email u \<noteq> em" and ok: "db_raises e SessionCommit = None"
  proof -
    have free': "\<forall>u \<in> set (user_table s).
        email u \<noteq> lower (strip (or_empty (dict_get (j_email data))))"
      using free assms(4) by simp
    let ?u = "\<lparr>u_id = gen_id e,
                first_name = or_empty (dict_get (j_first_name data)),
                last_name = or_empty (dict_get (j_last_name data)),
                email = lower (strip (or_empty (dict_get (j_email data)))),
                password = generate_password_hash e (or_empty (dict_get (j_password data))),
                is_admin = False\<rparr>"
    have r: "fst (fst (register e data s)) = 201"
      "snd (register e data s) = s\<lparr>user_table := user_table s @ [?u]\<rparr>"
      using register_free [OF valid free', of e] ok by simp_all
    have none: "filter (\<lambda>u. email u = em) (user_table s) = []"
      using free by (simp add: filter_empty_conv)
    have cnt: "length (filter (\<lambda>u. email u = em) (user_table (snd (register e data s)))) = 1"
      unfolding r(2) using none assms(4) by simp
    have mem: "?u \<in> set (user_table (snd (register e data s)))"
      unfolding r(2) by simp
    have again: "register e' data (snd (register e data s))
        = ((400, Error ''Email already registered''), snd (register e data s))"
      using register_taken [OF valid mem, of e'] by simp
    show ?thesis using r(1) cnt again by simp
  qed
  have uniq: "distinct (map email (user_table (snd (register e data s))))"
    if "distinct (map email (user_table s))"
    using register_users [of e data s] that by auto
  show ?thesis
    using taken one race twice uniq by blast
qed

theorem register_duplicate_email_witness:
  "register demo_env
      (no_data\<lparr>j_email := Val (CHR 0xA0 # ''DEMO@example.com''), j_password := Val ''pw'',
               j_first_name := Val ''D'', j_last_name := Val ''U''\<rparr>) demo_store
     = ((400, Error ''Email already registered''), demo_store)
   \<and> register racing_env
      (no_data\<lparr>j_email := Val ''new@example.com'', j_password := Val ''pw'',
               j_first_name := Val ''N'', j_last_name := Val ''U''\<rparr>) demo_store
     = ((400, Error ''Email already registered''), demo_store)
   \<and> length (filter (\<lambda>u. email u = ''demo@example.com'') (user_table demo_store)) = 1"
proof -
  let ?dup = "no_data\<lparr>j_email := Val (CHR 0xA0 # ''DEMO@example.com''), j_password := Val ''pw'',
               j_first_name := Val ''D'', j_last_name := Val ''U''\<rparr>"
  let ?new = "no_data\<lparr>j_email := Val ''new@example.com'', j_password := Val ''pw'',
               j_first_name := Val ''N'', j_last_name := Val ''U''\<rparr>"
  have v: "truthy (dict_get (j_password ?dup))" "truthy (dict_get (j_first_name ?dup))"
    "truthy (dict_get (j_last_name ?dup))"
    "truthy (dict_get (j_password ?new))" "truthy (dict_get (j_first_name ?new))"
    "truthy (dict_get (j_last_name ?new))"
    by (simp_all add: no_data_def)
  have n: "''demo@example.com'' = lower (strip (or_empty (dict_get (j_email ?dup))))"
    "''new@example.com'' = lower (strip (or_empty (dict_get (j_email ?new))))"
    by (simp_all add: no_data_def lower_def lower_char_def upper_letters_def lower_letters_def
        strip_def isspace_def)
  have s: "\<exists>u \<in> set (user_table demo_store). email u = ''demo@example.com''"
    "distinct (map email (user_table demo_store))"
    by (simp_all add: demo_store_def admin_user_def demo_user_def)
  have r: "db_raises racing_env SessionCommit = Some IntegrityError"
    by (simp add: racing_env_def)
  show ?thesis
    using register_duplicate_email [OF v(1-3) n(1), of demo_store demo_env demo_env]
      register_duplicate_email [OF v(4-6) n(2), of demo_store racing_env demo_env] s r
    by auto
qed

section \<open>Creating a review\<close>

lemma find_None_tuple:
  "(find (\<lambda>r. user_id r = a \<and> place_id r = b \<and> text r = t \<and> rating r = n) rs = None)
     \<longleftrightarrow> (a, b, t, n) \<notin> review_tuple ` set rs"
  by (auto simp: find_None_iff review_tuple_def image_iff)

lemma reviews_valid:
  assumes "verify_jwt_in_request e req = Some c"
    and "dict_get (j_place_id data) = Some pid" and "pid \<noteq> []"
    and "dict_get (j_text data) = Some t" and "t \<noteq> []"
    and "dict_get (j_rating data) = Some v"
    and "find (\<lambda>p. p_id p = pid) (place_table s) = Some p"
  shows "reviews e POST req data s =
           (case py_int (int_max_str_digits e) v of
              Inl err \<Rightarrow> (unhandled, s)
            | Inr rt \<Rightarrow>
                if \<not> sqlite_integer rt then (unhandled, s)
                else if (sub c, pid, strip t, rt) \<in> review_tuple ` set (review_table s)
                then ((409, Error ''Duplicate review detected''), s)
                else if db_raises e SessionCommit = None
                then ((201, Obj (review_to_dict
                             \<lparr>r_id = gen_id e, user_id = sub c, place_id = pid,
                              text = strip t, rating = rt\<rparr>)),
                      s\<lparr>review_table := review_table s @
                           [\<lparr>r_id = gen_id e, user_id = sub c, place_id = pid,
                             text = strip t, rating = rt\<rparr>]\<rparr>)
                else (unhandled, s))"
  using assms
  by (auto simp: reviews_def Let_def db_exec_def find_None_tuple
      split: option.splits sum.splits)

lemma reviews_table:
  "review_table (snd (reviews e m req data s)) = review_table s
   \<or> (\<exists>r. review_table (snd (reviews e m req data s)) = review_table s @ [r]
          \<and> review_tuple r \<notin> review_tuple ` set (review_table s))"
proof (cases m)
  case GET
  then show ?thesis by (simp add: reviews_def)
next
  case POST
  show ?thesis
    unfolding POST
    by (auto simp: reviews_def Let_def db_exec_def find_None_tuple review_tuple_def
        split: option.splits sum.splits)
qed

lemma delete_review_table:
  "review_table (snd (delete_review e req rid s)) = review_table s
   \<or> (\<exists>k. review_table (snd (delete_review e req rid s))
            = filter (\<lambda>x. r_id x \<noteq> k) (review_table s))"
  by (auto simp: delete_review_def Let_def db_exec_def split: option.splits)

lemma delete_place_table:
  "review_table (snd (delete_place e req pid s)) = review_table s
   \<or> review_table (snd (delete_place e req pid s))
        = filter (\<lambda>r. place_id r \<noteq> pid) (review_table s)"
  by (auto simp: delete_place_def admin_required_def delete_place_fn_def db_exec_def
      split: option.splits)

lemma delete_user_table:
  "review_table (snd (delete_user e req uid s)) = review_table s
   \<or> review_table (snd (delete_user e req uid s))
        = filter (\<lambda>r. user_id r \<noteq> uid) (review_table s)"
  by (auto simp: delete_user_def admin_required_def delete_user_fn_def db_exec_def
      split: option.splits)

lemma other_tables:
  "review_table (snd (register e data s)) = review_table s"
  "review_table (snd (create_place e req data s)) = review_table s"
  "review_table (snd (update_place e req pid data s)) = review_table s"
  by (auto simp: register_def create_place_def update_place_def admin_required_def
      create_place_fn_def update_place_fn_def db_exec_def Let_def
      split: option.splits db_error.splits sum.splits)

text \<open>
  C3. Let the caller be authenticated with claims \<open>c\<close>, and let the request name an
  existing place \<open>pid\<close>, a non-empty text \<open>t\<close> and a rating that \<^verbatim>\<open>int()\<close> converts to \<open>rt\<close>,
  an integer SQLite can bind. The review to be stored has the tuple
  \<open>(sub c, pid, strip t, rt)\<close>. If a stored review has that tuple, \<^verbatim>\<open>reviews\<close> answers 409
  \<^verbatim>\<open>Duplicate review detected\<close> and adds no row. If none has, and the commit raises
  nothing, it answers 201 and appends the review, also when the same user already
  reviewed the same place with another text or rating. When the rating does not
  convert, or not to an integer SQLite can bind, the request ends with status 500 and
  no row is added. A store whose reviews have pairwise different tuples stays so
  under \<^verbatim>\<open>reviews\<close>, for every request, and under every other handler that writes.
\<close>

theorem reviews_exact_duplicate_guard:
  assumes "verify_jwt_in_request e req = Some c"
    and "dict_get (j_place_id data) = Some pid" and "pid \<noteq> []"
    and "dict_get (j_text data) = Some t" and "t \<noteq> []"
    and "dict_get (j_rating data) = Some v"
    and "p \<in> set (place_table s)" and "p_id p = pid"
  shows "(\<forall>rt. py_int (int_max_str_digits e) v = Inr rt \<and> sqlite_integer rt \<longrightarrow>
            ((sub c, pid, strip t, rt) \<in> review_tuple ` set (review_table s) \<longrightarrow>
               reviews e POST req data s = ((409, Error ''Duplicate review detected''), s))
            \<and> ((sub c, pid, strip t, rt) \<notin> review_tuple ` set (review_table s)
                 \<and> db_raises e SessionCommit = None \<longrightarrow>
               reviews e POST req data s =
                 ((201, Obj (review_to_dict
                          \<lparr>r_id = gen_id e, user_id = sub c, place_id = pid,
                           text = strip t, rating = rt\<rparr>)),
                  s\<lparr>review_table := review_table s @
                       [\<lparr>r_id = gen_id e, user_id = sub c, place_id = pid,
                         text = strip t, rating = rt\<rparr>]\<rparr>)))
       \<and> ((\<exists>err. py_int (int_max_str_digits e) v = Inl err)
            \<or> (\<exists>rt. py_int (int_max_str_digits e) v = Inr rt \<and> \<not> sqlite_integer rt) \<longrightarrow>
            reviews e POST req data s = (unhandled, s))
       \<and> (distinct (map review_tuple (review_table s)) \<longrightarrow>
            distinct (map review_tuple (review_table (snd (reviews e POST req data s))))
            \<and> distinct (map review_tuple (review_table (snd (reviews e' m' req' data' s))))
            \<and> distinct (map review_tuple (review_table (snd (delete_review e' req' rid s))))
            \<and> distinct (map review_tuple (review_table (snd (delete_place e' req' pid' s))))
            \<and> distinct (map review_tuple (review_table (snd (delete_user e' req' uid s))))
            \<and> distinct (map review_tuple (review_table (snd (register e' data' s))))
            \<and> distinct (map review_tuple (review_table (snd (create_place e' req' data' s))))
            \<and> distinct (map review_tuple
                 (review_table (snd (update_place e' req' pid' data' s)))))"
proof -
  from assms(7,8) obtain y where y: "find (\<lambda>z. p_id z = pid) (place_table s) = Some y"
    using find_by_key [of p "place_table s" p_id] by auto
  note eq = reviews_valid [OF assms(1-6) y]
  have inv: "distinct (map review_tuple (review_table (snd (reviews a b c d s))))"
    if "distinct (map review_tuple (review_table s))" for a b c d
    using reviews_table [of a b c d s] that by auto
  have del: "distinct (map review_tuple (filter P (review_table s)))"
    if "distinct (map review_tuple (review_table s))" for P
    using that by (rule distinct_map_filter)
  have dr: "distinct (map review_tuple (review_table (snd (delete_review e' req' rid s))))"
    if "distinct (map review_tuple (review_table s))"
    using delete_review_table [of e' req' rid s] del [OF that] that by auto
  have dp: "distinct (map review_tuple (review_table (snd (delete_place e' req' pid' s))))"
    if "distinct (map review_tuple (review_table s))"
    using delete_place_table [of e' req' pid' s] del [OF that] that by auto
  have du: "distinct (map review_tuple (review_table (snd (delete_user e' req' uid s))))"
    if "distinct (map review_tuple (review_table s))"
    using delete_user_table [of e' req' uid s] del [OF that] that by auto
  have dup: "reviews e POST req data s = ((409, Error ''Duplicate review detected''), s)"
    if "py_int (int_max_str_digits e) v = Inr rt" "sqlite_integer rt"
      "(sub c, pid, strip t, rt) \<in> review_tuple ` set (review_table s)" for rt
    using that by (simp add: eq)
  have new: "reviews e POST req data s =
        ((201, Obj (review_to_dict
                 \<lparr>r_id = gen_id e, user_id = sub c, place_id = pid,
                  text = strip t, rating = rt\<rparr>)),
         s\<lparr>review_table := review_table s @
              [\<lparr>r_id = gen_id e, user_id = sub c, place_id = pid,
                text = strip t, rating = rt\<rparr>]\<rparr>)"
    if "py_int (int_max_str_digits e) v = Inr rt" "sqlite_integer rt"
      "(sub c, pid, strip t, rt) \<notin> review_tuple ` set (review_table s)"
      "db_raises e SessionCommit = None" for rt
    using that by (simp add: eq)
  have bad: "reviews e POST req data s = (unhandled, s)"
    if "(\<exists>err. py_int (int_max_str_digits e) v = Inl err)
        \<or> (\<exists>rt. py_int (int_max_str_digits e) v = Inr rt \<and> \<not> sqlite_integer rt)"
    using that by (auto simp: eq)
  have A: "\<forall>rt. py_int (int_max_str_digits e) v = Inr rt \<and> sqlite_integer rt \<longrightarrow>
            ((sub c, pid, strip t, rt) \<in> review_tuple ` set (review_table s) \<longrightarrow>
               reviews e POST req data s = ((409, Error ''Duplicate review detected''), s))
            \<and> ((sub c, pid, strip t, rt) \<notin> review_tuple ` set (review_table s)
                 \<and> db_raises e SessionCommit = None \<longrightarrow>
               reviews e POST req data s =
                 ((201, Obj (review_to_dict
                          \<lparr>r_id = gen_id e, user_id = sub c, place_id = pid,
                           text = strip t, rating = rt\<rparr>)),
                  s\<lparr>review_table := review_table s @
                       [\<lparr>r_id = gen_id e, user_id = sub c, place_id = pid,
                         text = strip t, rating = rt\<rparr>]\<rparr>))"
    using dup new by blast
  have C: "distinct (map review_tuple (review_table s)) \<longrightarrow>
            distinct (map review_tuple (review_table (snd (reviews e POST req data s))))
            \<and> distinct (map review_tuple (review_table (snd (reviews e' m' req' data' s))))
            \<and> distinct (map review_tuple (review_table (snd (delete_review e' req' rid s))))
            \<and> distinct (map review_tuple (review_table (snd (delete_place e' req' pid' s))))
            \<and> distinct (map review_tuple (review_table (snd (delete_user e' req' uid s))))
            \<and> distinct (map review_tuple (review_table (snd (register e' data' s))))
            \<and> distinct (map review_tuple (review_table (snd (create_place e' req' data' s))))
            \<and> distinct (map review_tuple
                 (review_table (snd (update_place e' req' pid' data' s))))"
    using inv dr dp du by (simp add: other_tables)
  show ?thesis
    using A bad C by blast
qed

theorem reviews_exact_duplicate_guard_witness:
  "reviews demo_env POST demo_request
      (no_data\<lparr>j_place_id := Val ''p1'', j_text := Val ('' Great'' @ [CHR 0xA0]),
               j_rating := Val (PyInt 5)\<rparr>) demo_store
     = ((409, Error ''Duplicate review detected''), demo_store)
   \<and> reviews demo_env POST demo_request
      (no_data\<lparr>j_place_id := Val ''p1'', j_text := Val ''Great'', j_rating := Val (PyInt 4)\<rparr>)
      demo_store
     = ((201, Obj [(''id'', JStr ''id-new''), (''user_id'', JStr ''u2''),
                   (''place_id'', JStr ''p1''), (''text'', JStr ''Great''),
                   (''rating'', JInt 4)]),
        demo_store\<lparr>review_table :=
          [review1, review2, review3,
           \<lparr>r_id = ''id-new'', user_id = ''u2'', place_id = ''p1'', text = ''Great'',
            rating = 4\<rparr>]\<rparr>)
   \<and> reviews demo_env POST demo_request
      (no_data\<lparr>j_place_id := Val ''p1'', j_text := Val ''Great'',
               j_rating := Val (PyInt (2 ^ 63))\<rparr>) demo_store
     = (unhandled, demo_store)"
proof -
  let ?dup = "no_data\<lparr>j_place_id := Val ''p1'', j_text := Val ('' Great'' @ [CHR 0xA0]),
               j_rating := Val (PyInt 5)\<rparr>"
  let ?new = "no_data\<lparr>j_place_id := Val ''p1'', j_text := Val ''Great'',
               j_rating := Val (PyInt 4)\<rparr>"
  let ?big = "no_data\<lparr>j_place_id := Val ''p1'', j_text := Val ''Great'',
               j_rating := Val (PyInt (2 ^ 63))\<rparr>"
  have v: "verify_jwt_in_request demo_env demo_request = Some demo_claims"
    by (simp add: verify_jwt_in_request_def demo_env_def demo_request_def)
  have f: "dict_get (j_place_id ?dup) = Some ''p1''"
    "dict_get (j_text ?dup) = Some ('' Great'' @ [CHR 0xA0])"
    "dict_get (j_rating ?dup) = Some (PyInt 5)"
    "dict_get (j_place_id ?new) = Some ''p1''" "dict_get (j_text ?new) = Some ''Great''"
    "dict_get (j_rating ?new) = Some (PyInt 4)"
    "dict_get (j_place_id ?big) = Some ''p1''" "dict_get (j_text ?big) = Some ''Great''"
    "dict_get (j_rating ?big) = Some (PyInt (2 ^ 63))"
    by (simp_all add: no_data_def)
  have ne: "''p1'' \<noteq> []" "'' Great'' @ [CHR 0xA0] \<noteq> []" "''Great'' \<noteq> []"
    by simp_all
  have p: "beach_house \<in> set (place_table demo_store)" "p_id beach_house = ''p1''"
    by (simp_all add: demo_store_def beach_house_def)
  have st: "strip [CHR '' '', CHR ''G'', CHR ''r'', CHR ''e'', CHR ''a'', CHR ''t'', CHR 0xA0]
              = ''Great''"
    "strip ''Great'' = ''Great''"
    by (simp_all add: strip_def isspace_def)
  have t: "review_tuple review1 = (''u2'', ''p1'', ''Great'', 5)"
    "review_tuple review2 = (''u1'', ''p2'', ''Nice'', 4)"
    "review_tuple review3 = (''u2'', ''p2'', ''Quiet'', 3)"
    by (simp_all add: review_tuple_def review1_def review2_def review3_def)
  have rs: "review_table demo_store = [review1, review2, review3]"
    by (simp add: demo_store_def)
  have c: "sub demo_claims = ''u2''" "db_raises demo_env SessionCommit = None"
    "gen_id demo_env = ''id-new''" "int_max_str_digits demo_env = 4300"
    by (simp_all add: demo_claims_def demo_env_def)
  have q: "sqlite_integer 5" "sqlite_integer 4" "\<not> sqlite_integer 9223372036854775808"
    by (simp_all add: sqlite_integer_def)
  show ?thesis
    using reviews_exact_duplicate_guard
        [OF v f(1) ne(1) f(2) ne(2) f(3) p, of demo_env POST demo_request no_data
          "[]" "[]" "[]"]
      reviews_exact_duplicate_guard
        [OF v f(4) ne(1) f(5) ne(3) f(6) p, of demo_env POST demo_request no_data
          "[]" "[]" "[]"]
      reviews_exact_duplicate_guard
        [OF v f(7) ne(1) f(8) ne(3) f(9) p, of demo_env POST demo_request no_data
          "[]" "[]" "[]"]
    by (simp add: st t rs c q review_to_dict_def)
qed

text \<open>
  C8 on the code. \<^verbatim>\<open>reviews\<close> checks that a rating is present and that the text is
  not empty before it is trimmed, and nothing else: the ordinary user's request with
  the rating \<open>10\<close> is answered 201 and the review is stored with the rating \<open>10\<close>, and
  the request whose text is three spaces is answered 201 and stored with the empty
  text.
\<close>

theorem reviews_stores_unchecked:
  "reviews demo_env POST demo_request
      (no_data\<lparr>j_place_id := Val ''p1'', j_text := Val ''Great'', j_rating := Val (PyInt 10)\<rparr>)
      demo_store
     = ((201, Obj [(''id'', JStr ''id-new''), (''user_id'', JStr ''u2''),
                   (''place_id'', JStr ''p1''), (''text'', JStr ''Great''),
                   (''rating'', JInt 10)]),
        demo_store\<lparr>review_table :=
          [review1, review2, review3,
           \<lparr>r_id = ''id-new'', user_id = ''u2'', place_id = ''p1'', text = ''Great'',
            rating = 10\<rparr>]\<rparr>)
   \<and> reviews demo_env POST demo_request
      (no_data\<lparr>j_place_id := Val ''p1'', j_text := Val ''   '', j_rating := Val (PyInt 5)\<rparr>)
      demo_store
     = ((201, Obj [(''id'', JStr ''id-new''), (''user_id'', JStr ''u2''),
                   (''place_id'', JStr ''p1''), (''text'', JStr []),
                   (''rating'', JInt 5)]),
        demo_store\<lparr>review_table :=
          [review1, review2, review3,
           \<lparr>r_id = ''id-new'', user_id = ''u2'', place_id = ''p1'', text = [],
            rating = 5\<rparr>]\<rparr>)"
proof -
  have st: "strip ''Great'' = ''Great''" "strip ''   '' = []"
    by (simp_all add: strip_def isspace_def)
  show ?thesis
    by (simp add: reviews_def Let_def verify_jwt_in_request_def db_exec_def st no_data_def
        demo_env_def demo_request_def demo_claims_def demo_store_def beach_house_def
        cozy_cabin_def review1_def review2_def review3_def review_to_dict_def
        sqlite_integer_def)
qed

theorem reviews_stores_unchecked_witness:
  "rating (last (review_table (snd (reviews demo_env POST demo_request
      (no_data\<lparr>j_place_id := Val ''p1'', j_text := Val ''Great'', j_rating := Val (PyInt 10)\<rparr>)
      demo_store)))) = 10
   \<and> text (last (review_table (snd (reviews demo_env POST demo_request
      (no_data\<lparr>j_place_id := Val ''p1'', j_text := Val ''   '', j_rating := Val (PyInt 5)\<rparr>)
      demo_store)))) = []"
  using reviews_stores_unchecked by simp

section \<open>What the other handlers keep true of the user table\<close>

text \<open>
  The theorems on \<^verbatim>\<open>login\<close> and \<^verbatim>\<open>register\<close> assume that stored emails are unique and
  not empty. \<^verbatim>\<open>register\<close>, the only handler that adds a user, keeps both true (lemma
  \<open>register_keeps_emails\<close>), and the other handlers only remove rows from the user table
  or leave it alone.
\<close>

lemma delete_user_users:
  "user_table (snd (delete_user e req uid s)) = user_table s
   \<or> (\<exists>k. user_table (snd (delete_user e req uid s))
            = filter (\<lambda>x. u_id x \<noteq> k) (user_table s))"
  by (auto simp: delete_user_def admin_required_def delete_user_fn_def db_exec_def
      split: option.splits)

lemma delete_user_keeps_emails:
  assumes "distinct (map email (user_table s))"
    and "\<forall>u \<in> set (user_table s). email u \<noteq> []"
  shows "distinct (map email (user_table (snd (delete_user e req uid s))))
       \<and> (\<forall>u \<in> set (user_table (snd (delete_user e req uid s))). email u \<noteq> [])"
  using delete_user_users [of e req uid s] assms by (auto simp: distinct_map_filter)

lemma other_handlers_users:
  "user_table (snd (create_place e req data s)) = user_table s"
  "user_table (snd (update_place e req pid data s)) = user_table s"
  "user_table (snd (delete_place e req pid s)) = user_table s"
  "user_table (snd (reviews e m req data s)) = user_table s"
  "user_table (snd (delete_review e req rid s)) = user_table s"
  by (auto simp: create_place_def update_place_def delete_place_def admin_required_def
      create_place_fn_def update_place_fn_def delete_place_fn_def reviews_def
      delete_review_def db_exec_def Let_def
      split: option.splits sum.splits)

end
